theory Spec2Isabelle
  imports Main "HOL-Library.Word" "HOL-Library.Monad_Syntax"
begin

section \<open>The lxst codec bridge: lxst\_opus\_jni.c and lxst\_codec2\_jni.c\<close>

text \<open>
  The two C files wrap libopus and libcodec2 behind integer handles.  The codec
  engines, the C allocator and the Java runtime are not part of the repository:
  the engines and the runtime are parameters of the model (records of functions),
  and everything the bridge does to them is written out as explicit state passing
  over a \<open>world\<close>: the native heap, the allocator's future answers, the Java arrays
  and the log of external calls made so far.

  A result of type \<open>option\<close> is \<open>None\<close> where the C program has undefined behaviour
  (a dangling or foreign pointer is dereferenced, a null or wrongly typed array
  reference is used, a native write runs past the end of a buffer).

  Pointers are 64 bits wide, so the two handle casts keep every bit.  A Java array
  has fewer than \<open>2^31\<close> elements, so the \<open>jsize\<close> that \<open>GetArrayLength\<close> returns is
  its length; the bound is a hypothesis where a statement needs it.  \<open>short\<close> and
  \<open>byte\<close> arrays are different Java types, so the two arrays of one call are never
  the same array.
\<close>

subsection \<open>Machine types\<close>

type_synonym jint = "32 word"
type_synonym jlong = "64 word"
type_synonym jshort = "16 word"
type_synonym jbyte = "8 word"

text \<open>\<open>uintptr_t\<close> on an LP64 target; the null pointer is 0.\<close>
type_synonym ptr = "64 word"

text \<open>A \<open>jshortArray\<close> or \<open>jbyteArray\<close> reference; 0 is the null reference.\<close>
type_synonym aref = nat

subsection \<open>Constants of jni.h and opus\_defines.h\<close>

definition JNI_OK :: jint where "JNI_OK = 0"
definition JNI_ERR :: jint where "JNI_ERR = - 1"
definition JNI_VERSION_1_6 :: jint where "JNI_VERSION_1_6 = 0x00010006"
definition JNI_COMMIT :: jint where "JNI_COMMIT = 1"
definition JNI_ABORT :: jint where "JNI_ABORT = 2"
definition OPUS_OK :: jint where "OPUS_OK = 0"
definition OPUS_ALLOC_FAIL :: jint where "OPUS_ALLOC_FAIL = - 7"

subsection \<open>The context structs and the native heap\<close>

text \<open>\<open>typedef struct { OpusEncoder *enc; OpusDecoder *dec; } OpusCtx;\<close>\<close>
record OpusCtx =
  enc :: ptr
  dec :: ptr

text \<open>\<open>typedef struct { struct CODEC2 *c2; int nsam; int nbyte; } Codec2Ctx;\<close>\<close>
record Codec2Ctx =
  c2 :: ptr
  nsam :: jint
  nbyte :: jint

text \<open>
  What an allocated block of the native heap holds.  \<open>'s\<close> is the engines' opaque
  internal state.  \<open>Raw\<close> is a block fresh from \<open>malloc\<close>, not yet written.
\<close>
datatype 's obj =
    Raw
  | OpusEncoder 's
  | OpusDecoder 's
  | CODEC2 's
  | OpusCtxBlk OpusCtx
  | Codec2CtxBlk Codec2Ctx

datatype jarray = ShortArray "jshort list" | ByteArray "jbyte list"

text \<open>The two requests \<open>nCreate\<close> sends through \<open>opus_encoder_ctl\<close>.\<close>
datatype ctl_request = OPUS_SET_BITRATE jint | OPUS_SET_COMPLEXITY jint

text \<open>The log of calls that leave the bridge, with their arguments and results.\<close>
datatype call =
    Ev_malloc ptr
  | Ev_free ptr
  | Ev_opus_encoder_create jint jint jint jint ptr
  | Ev_opus_encoder_ctl ptr ctl_request jint
  | Ev_opus_decoder_create jint jint jint ptr
  | Ev_opus_encoder_destroy ptr
  | Ev_opus_decoder_destroy ptr
  | Ev_opus_encode ptr jint jint jint
  | Ev_opus_decode ptr jint jint jint jint
  | Ev_codec2_create jint ptr
  | Ev_codec2_destroy ptr
  | Ev_codec2_samples_per_frame ptr jint
  | Ev_codec2_bytes_per_frame ptr jint
  | Ev_codec2_encode ptr
  | Ev_codec2_decode ptr
  | Ev_GetArrayLength aref jint
  | Ev_GetShortArrayElements aref
  | Ev_GetByteArrayElements aref
  | Ev_ReleaseShortArrayElements aref jint
  | Ev_ReleaseByteArrayElements aref jint

record 's world =
  heap :: "ptr \<Rightarrow> 's obj option"
  plan :: "ptr list"
  arrays :: "aref \<Rightarrow> jarray option"
  calls :: "call list"

definition log :: "call \<Rightarrow> 's world \<Rightarrow> 's world" where
  "log c w = w\<lparr>calls := calls w @ [c]\<rparr>"

subsection \<open>The C allocator\<close>

text \<open>
  \<open>plan\<close> lists the addresses the allocator will propose, in order; a proposal of 0,
  of an address still in use, or an exhausted plan is an allocation failure.  Every
  behaviour of a correct allocator is the behaviour of some plan.
\<close>
definition alloc :: "'s world \<Rightarrow> ptr \<times> 's world" where
  "alloc w =
     (case plan w of
        [] \<Rightarrow> (0, w)
      | p # ps \<Rightarrow>
          if p = 0 \<or> heap w p \<noteq> None then (0, w\<lparr>plan := ps\<rparr>)
          else (p, w\<lparr>plan := ps\<rparr>))"

definition store :: "ptr \<Rightarrow> 's obj \<Rightarrow> 's world \<Rightarrow> 's world" where
  "store p v w = w\<lparr>heap := (heap w)(p \<mapsto> v)\<rparr>"

definition malloc :: "'s world \<Rightarrow> ptr \<times> 's world" where
  "malloc w =
     (let (p, w1) = alloc w
      in if p = 0 then (0, log (Ev_malloc 0) w1)
         else (p, log (Ev_malloc p) (store p Raw w1)))"

text \<open>\<open>free(p)\<close>: freeing what is not allocated is undefined; \<open>free(NULL)\<close> does nothing.\<close>
definition free :: "ptr \<Rightarrow> 's world \<Rightarrow> 's world option" where
  "free p w =
     (if p = 0 then Some (log (Ev_free p) w)
      else if heap w p = None then None
      else Some (log (Ev_free p) (w\<lparr>heap := (heap w)(p := None)\<rparr>)))"

subsection \<open>The handle casts\<close>

text \<open>\<open>(jlong)(uintptr_t)ctx\<close> and \<open>(Ctx *)(uintptr_t)h\<close>.\<close>
definition handle_of_ptr :: "ptr \<Rightarrow> jlong" where
  "handle_of_ptr p = ucast p"

definition ctx_from_handle :: "jlong \<Rightarrow> ptr" where
  "ctx_from_handle h = ucast h"

subsection \<open>libopus as a parameter\<close>

text \<open>
  The engine's decisions are functions of its arguments and of the state of the
  object it is applied to.  \<open>opus_encoder_create_fn\<close> gives the error code and, when
  the engine builds an object, its initial state; \<open>opus_encode_fn\<close> and
  \<open>opus_decode_fn\<close> give the return value, the next state and the data written to
  the front of the output buffer, or \<open>None\<close> where the engine's own behaviour is
  undefined (for instance an input buffer shorter than the frame it is told to read).
  An engine reads its input buffer and writes only its output buffer and its own
  object; \<open>opus_encoder_ctl\<close> changes only the encoder it is applied to.
\<close>
record 's opus_lib =
  opus_encoder_create_fn :: "jint \<Rightarrow> jint \<Rightarrow> jint \<Rightarrow> jint \<times> 's option"
  opus_encoder_ctl_fn :: "'s \<Rightarrow> ctl_request \<Rightarrow> jint \<times> 's"
  opus_decoder_create_fn :: "jint \<Rightarrow> jint \<Rightarrow> jint \<times> 's option"
  opus_encode_fn :: "'s \<Rightarrow> jshort list \<Rightarrow> jint \<Rightarrow> jint \<Rightarrow> (jint \<times> 's \<times> jbyte list) option"
  opus_decode_fn :: "'s \<Rightarrow> jbyte list \<Rightarrow> jint \<Rightarrow> jint \<Rightarrow> jint \<Rightarrow> (jint \<times> 's \<times> jshort list) option"

text \<open>
  \<open>opus_encoder_create(Fs, channels, application, &error)\<close>: the pair is
  \<open>(*error, returned pointer)\<close>.  The object lives in a block of the C heap.
\<close>
definition opus_encoder_create ::
  "'s opus_lib \<Rightarrow> jint \<Rightarrow> jint \<Rightarrow> jint \<Rightarrow> 's world \<Rightarrow> (jint \<times> ptr) \<times> 's world" where
  "opus_encoder_create L Fs channels application w =
     (let (err, so) = opus_encoder_create_fn L Fs channels application
      in case so of
           None \<Rightarrow> ((err, 0), log (Ev_opus_encoder_create Fs channels application err 0) w)
         | Some st \<Rightarrow>
             (let (p, w1) = alloc w
              in if p = 0
                 then ((OPUS_ALLOC_FAIL, 0),
                       log (Ev_opus_encoder_create Fs channels application OPUS_ALLOC_FAIL 0) w1)
                 else ((err, p),
                       log (Ev_opus_encoder_create Fs channels application err p)
                         (store p (OpusEncoder st) w1))))"

definition opus_decoder_create ::
  "'s opus_lib \<Rightarrow> jint \<Rightarrow> jint \<Rightarrow> 's world \<Rightarrow> (jint \<times> ptr) \<times> 's world" where
  "opus_decoder_create L Fs channels w =
     (let (err, so) = opus_decoder_create_fn L Fs channels
      in case so of
           None \<Rightarrow> ((err, 0), log (Ev_opus_decoder_create Fs channels err 0) w)
         | Some st \<Rightarrow>
             (let (p, w1) = alloc w
              in if p = 0
                 then ((OPUS_ALLOC_FAIL, 0),
                       log (Ev_opus_decoder_create Fs channels OPUS_ALLOC_FAIL 0) w1)
                 else ((err, p),
                       log (Ev_opus_decoder_create Fs channels err p)
                         (store p (OpusDecoder st) w1))))"

definition opus_encoder_ctl ::
  "'s opus_lib \<Rightarrow> ptr \<Rightarrow> ctl_request \<Rightarrow> 's world \<Rightarrow> (jint \<times> 's world) option" where
  "opus_encoder_ctl L p req w =
     (case heap w p of
        Some (OpusEncoder st) \<Rightarrow>
          (let (r, st') = opus_encoder_ctl_fn L st req
           in Some (r, log (Ev_opus_encoder_ctl p req r) (store p (OpusEncoder st') w)))
      | _ \<Rightarrow> None)"

definition opus_encoder_destroy :: "ptr \<Rightarrow> 's world \<Rightarrow> 's world option" where
  "opus_encoder_destroy p w =
     (case heap w p of
        Some (OpusEncoder st) \<Rightarrow>
          Some (log (Ev_opus_encoder_destroy p) (w\<lparr>heap := (heap w)(p := None)\<rparr>))
      | _ \<Rightarrow> None)"

definition opus_decoder_destroy :: "ptr \<Rightarrow> 's world \<Rightarrow> 's world option" where
  "opus_decoder_destroy p w =
     (case heap w p of
        Some (OpusDecoder st) \<Rightarrow>
          Some (log (Ev_opus_decoder_destroy p) (w\<lparr>heap := (heap w)(p := None)\<rparr>))
      | _ \<Rightarrow> None)"

subsection \<open>libcodec2 as a parameter (codec2.h)\<close>

text \<open>
  \<open>codec2_create_fn\<close> is \<open>None\<close> for a mode the engine refuses.  The transforms give
  the next state and the data written to the front of the output buffer, or \<open>None\<close>
  where the engine's behaviour is undefined; the input buffer is only read.
\<close>

record 's codec2_lib =
  codec2_create_fn :: "jint \<Rightarrow> 's option"
  codec2_samples_per_frame_fn :: "'s \<Rightarrow> jint"
  codec2_bytes_per_frame_fn :: "'s \<Rightarrow> jint"
  codec2_encode_fn :: "'s \<Rightarrow> jshort list \<Rightarrow> ('s \<times> jbyte list) option"
  codec2_decode_fn :: "'s \<Rightarrow> jbyte list \<Rightarrow> ('s \<times> jshort list) option"

definition codec2_create :: "'s codec2_lib \<Rightarrow> jint \<Rightarrow> 's world \<Rightarrow> ptr \<times> 's world" where
  "codec2_create L mode w =
     (case codec2_create_fn L mode of
        None \<Rightarrow> (0, log (Ev_codec2_create mode 0) w)
      | Some st \<Rightarrow>
          (let (p, w1) = alloc w
           in if p = 0 then (0, log (Ev_codec2_create mode 0) w1)
              else (p, log (Ev_codec2_create mode p) (store p (CODEC2 st) w1))))"

definition codec2_destroy :: "ptr \<Rightarrow> 's world \<Rightarrow> 's world option" where
  "codec2_destroy p w =
     (case heap w p of
        Some (CODEC2 st) \<Rightarrow>
          Some (log (Ev_codec2_destroy p) (w\<lparr>heap := (heap w)(p := None)\<rparr>))
      | _ \<Rightarrow> None)"

definition codec2_samples_per_frame ::
  "'s codec2_lib \<Rightarrow> ptr \<Rightarrow> 's world \<Rightarrow> (jint \<times> 's world) option" where
  "codec2_samples_per_frame L p w =
     (case heap w p of
        Some (CODEC2 st) \<Rightarrow>
          (let n = codec2_samples_per_frame_fn L st
           in Some (n, log (Ev_codec2_samples_per_frame p n) w))
      | _ \<Rightarrow> None)"

definition codec2_bytes_per_frame ::
  "'s codec2_lib \<Rightarrow> ptr \<Rightarrow> 's world \<Rightarrow> (jint \<times> 's world) option" where
  "codec2_bytes_per_frame L p w =
     (case heap w p of
        Some (CODEC2 st) \<Rightarrow>
          (let n = codec2_bytes_per_frame_fn L st
           in Some (n, log (Ev_codec2_bytes_per_frame p n) w))
      | _ \<Rightarrow> None)"

subsection \<open>The Java runtime as a parameter (jni.h)\<close>

text \<open>The functions a \<open>JNINativeMethod\<close> entry can point to.\<close>
datatype native_fn =
  Fn_nCreate | Fn_nDestroy | Fn_nGetSamplesPerFrame | Fn_nGetFrameBytes | Fn_nEncode | Fn_nDecode

text \<open>\<open>{name, signature, fnPtr}\<close>\<close>
type_synonym JNINativeMethod = "string \<times> string \<times> native_fn"

text \<open>
  \<open>is_copy\<close> is the runtime's choice, for each array, between handing out a copy of
  the elements and a direct pointer to them.  \<open>GetEnv_fn\<close> maps the requested
  version to the result code, \<open>FindClass_fn\<close> a class name to a local reference
  (0 for \<open>NULL\<close>), \<open>RegisterNatives_fn\<close> the class, the table and its length to the
  result code.
\<close>
record jni_runtime =
  is_copy :: "aref \<Rightarrow> bool"
  GetEnv_fn :: "jint \<Rightarrow> jint"
  FindClass_fn :: "string \<Rightarrow> nat"
  RegisterNatives_fn :: "nat \<Rightarrow> JNINativeMethod list \<Rightarrow> jint \<Rightarrow> jint"

text \<open>The runtime calls of \<open>JNI_OnLoad\<close>, with their arguments and results.\<close>
datatype jni_call =
    J_GetEnv jint jint
  | J_FindClass string nat
  | J_RegisterNatives nat jint jint
  | J_DeleteLocalRef nat

text \<open>
  A view is what \<open>Get<Type>ArrayElements\<close> hands to native code: the elements as
  native code sees them, for which array, and whether they are a copy.
\<close>
record 'a view =
  v_array :: aref
  v_copy :: bool
  v_buf :: "'a list"

definition GetArrayLength :: "aref \<Rightarrow> 's world \<Rightarrow> (jint \<times> 's world) option" where
  "GetArrayLength a w =
     (if a = 0 then None
      else case arrays w a of
        None \<Rightarrow> None
      | Some (ShortArray xs) \<Rightarrow>
          Some (of_nat (length xs), log (Ev_GetArrayLength a (of_nat (length xs))) w)
      | Some (ByteArray bs) \<Rightarrow>
          Some (of_nat (length bs), log (Ev_GetArrayLength a (of_nat (length bs))) w))"

definition GetShortArrayElements ::
  "jni_runtime \<Rightarrow> aref \<Rightarrow> 's world \<Rightarrow> (jshort view \<times> 's world) option" where
  "GetShortArrayElements R a w =
     (if a = 0 then None
      else case arrays w a of
        Some (ShortArray xs) \<Rightarrow>
          Some (\<lparr>v_array = a, v_copy = is_copy R a, v_buf = xs\<rparr>,
                log (Ev_GetShortArrayElements a) w)
      | _ \<Rightarrow> None)"

definition GetByteArrayElements ::
  "jni_runtime \<Rightarrow> aref \<Rightarrow> 's world \<Rightarrow> (jbyte view \<times> 's world) option" where
  "GetByteArrayElements R a w =
     (if a = 0 then None
      else case arrays w a of
        Some (ByteArray bs) \<Rightarrow>
          Some (\<lparr>v_array = a, v_copy = is_copy R a, v_buf = bs\<rparr>,
                log (Ev_GetByteArrayElements a) w)
      | _ \<Rightarrow> None)"

text \<open>
  Release with mode 0 or \<open>JNI_COMMIT\<close> copies a copied buffer back into the array;
  \<open>JNI_ABORT\<close> drops the copy.  With a direct pointer there is nothing to copy.
\<close>
definition ReleaseShortArrayElements ::
  "aref \<Rightarrow> jshort view \<Rightarrow> jint \<Rightarrow> 's world \<Rightarrow> 's world" where
  "ReleaseShortArrayElements a v mode w =
     log (Ev_ReleaseShortArrayElements a mode)
       (if v_copy v \<and> mode \<noteq> JNI_ABORT
        then w\<lparr>arrays := (arrays w)(a \<mapsto> ShortArray (v_buf v))\<rparr> else w)"

definition ReleaseByteArrayElements ::
  "aref \<Rightarrow> jbyte view \<Rightarrow> jint \<Rightarrow> 's world \<Rightarrow> 's world" where
  "ReleaseByteArrayElements a v mode w =
     log (Ev_ReleaseByteArrayElements a mode)
       (if v_copy v \<and> mode \<noteq> JNI_ABORT
        then w\<lparr>arrays := (arrays w)(a \<mapsto> ByteArray (v_buf v))\<rparr> else w)"

text \<open>
  Native code writes \<open>xs\<close> to the front of a buffer.  Through a direct pointer the
  array changes at once; a write past the end of the buffer is undefined.
\<close>
definition overlay :: "'a list \<Rightarrow> 'a list \<Rightarrow> 'a list" where
  "overlay xs old = xs @ drop (length xs) old"

definition write_bytes ::
  "jbyte view \<Rightarrow> jbyte list \<Rightarrow> 's world \<Rightarrow> (jbyte view \<times> 's world) option" where
  "write_bytes v bs w =
     (if length (v_buf v) < length bs then None
      else Some (v\<lparr>v_buf := overlay bs (v_buf v)\<rparr>,
                 if v_copy v then w
                 else w\<lparr>arrays := (arrays w)(v_array v \<mapsto> ByteArray (overlay bs (v_buf v)))\<rparr>))"

definition write_shorts ::
  "jshort view \<Rightarrow> jshort list \<Rightarrow> 's world \<Rightarrow> (jshort view \<times> 's world) option" where
  "write_shorts v xs w =
     (if length (v_buf v) < length xs then None
      else Some (v\<lparr>v_buf := overlay xs (v_buf v)\<rparr>,
                 if v_copy v then w
                 else w\<lparr>arrays := (arrays w)(v_array v \<mapsto> ShortArray (overlay xs (v_buf v)))\<rparr>))"

subsection \<open>The engines' transforms on buffers\<close>

text \<open>\<open>opus_encode(st, pcm, frame_size, data, max_data_bytes)\<close>\<close>
definition opus_encode ::
  "'s opus_lib \<Rightarrow> ptr \<Rightarrow> jshort view \<Rightarrow> jint \<Rightarrow> jbyte view \<Rightarrow> jint \<Rightarrow> 's world
     \<Rightarrow> (jint \<times> jbyte view \<times> 's world) option" where
  "opus_encode L p pcm frame_size data max_data_bytes w =
     (case heap w p of
        Some (OpusEncoder st) \<Rightarrow> do {
          (ret, st', bs) \<leftarrow> opus_encode_fn L st (v_buf pcm) frame_size max_data_bytes;
          (data', w1) \<leftarrow> write_bytes data bs w;
          Some (ret, data',
                log (Ev_opus_encode p frame_size max_data_bytes ret)
                  (store p (OpusEncoder st') w1))
        }
      | _ \<Rightarrow> None)"

text \<open>\<open>opus_decode(st, data, len, pcm, frame_size, decode_fec)\<close>\<close>
definition opus_decode ::
  "'s opus_lib \<Rightarrow> ptr \<Rightarrow> jbyte view \<Rightarrow> jint \<Rightarrow> jshort view \<Rightarrow> jint \<Rightarrow> jint \<Rightarrow> 's world
     \<Rightarrow> (jint \<times> jshort view \<times> 's world) option" where
  "opus_decode L p data len pcm frame_size decode_fec w =
     (case heap w p of
        Some (OpusDecoder st) \<Rightarrow> do {
          (ret, st', xs) \<leftarrow> opus_decode_fn L st (v_buf data) len frame_size decode_fec;
          (pcm', w1) \<leftarrow> write_shorts pcm xs w;
          Some (ret, pcm',
                log (Ev_opus_decode p len frame_size decode_fec ret)
                  (store p (OpusDecoder st') w1))
        }
      | _ \<Rightarrow> None)"

text \<open>\<open>codec2_encode(c2, bytes, speech_in)\<close>\<close>
definition codec2_encode ::
  "'s codec2_lib \<Rightarrow> ptr \<Rightarrow> jbyte view \<Rightarrow> jshort view \<Rightarrow> 's world
     \<Rightarrow> (jbyte view \<times> 's world) option" where
  "codec2_encode L p bytes speech_in w =
     (case heap w p of
        Some (CODEC2 st) \<Rightarrow> do {
          (st', bs) \<leftarrow> codec2_encode_fn L st (v_buf speech_in);
          (bytes', w1) \<leftarrow> write_bytes bytes bs w;
          Some (bytes', log (Ev_codec2_encode p) (store p (CODEC2 st') w1))
        }
      | _ \<Rightarrow> None)"

text \<open>\<open>codec2_decode(c2, speech_out, bytes)\<close>\<close>
definition codec2_decode ::
  "'s codec2_lib \<Rightarrow> ptr \<Rightarrow> jshort view \<Rightarrow> jbyte view \<Rightarrow> 's world
     \<Rightarrow> (jshort view \<times> 's world) option" where
  "codec2_decode L p speech_out bytes w =
     (case heap w p of
        Some (CODEC2 st) \<Rightarrow> do {
          (st', xs) \<leftarrow> codec2_decode_fn L st (v_buf bytes);
          (speech_out', w1) \<leftarrow> write_shorts speech_out xs w;
          Some (speech_out', log (Ev_codec2_decode p) (store p (CODEC2 st') w1))
        }
      | _ \<Rightarrow> None)"

subsection \<open>Reading a context through a pointer\<close>

definition load_OpusCtx :: "ptr \<Rightarrow> 's world \<Rightarrow> OpusCtx option" where
  "load_OpusCtx p w =
     (if p = 0 then None
      else case heap w p of Some (OpusCtxBlk c) \<Rightarrow> Some c | _ \<Rightarrow> None)"

definition load_Codec2Ctx :: "ptr \<Rightarrow> 's world \<Rightarrow> Codec2Ctx option" where
  "load_Codec2Ctx p w =
     (if p = 0 then None
      else case heap w p of Some (Codec2CtxBlk c) \<Rightarrow> Some c | _ \<Rightarrow> None)"

section \<open>lxst\_opus\_jni.c\<close>

text \<open>
  \<open>nCreate\<close>: the encoder, its two tuning controls (results dropped), the decoder,
  then the context; each later failure undoes what the call built before it.
\<close>
definition nCreate_opus ::
  "'s opus_lib \<Rightarrow> jint \<Rightarrow> jint \<Rightarrow> jint \<Rightarrow> jint \<Rightarrow> jint \<Rightarrow> 's world
     \<Rightarrow> (jlong \<times> 's world) option" where
  "nCreate_opus L sampleRate channels application bitrate complexity w0 = do {
     ((encErr, e), w1) \<leftarrow> Some (opus_encoder_create L sampleRate channels application w0);
     if encErr \<noteq> OPUS_OK \<or> e = 0 then Some (0, w1)
     else do {
       (_, w2) \<leftarrow> opus_encoder_ctl L e (OPUS_SET_BITRATE bitrate) w1;
       (_, w3) \<leftarrow> opus_encoder_ctl L e (OPUS_SET_COMPLEXITY complexity) w2;
       ((decErr, d), w4) \<leftarrow> Some (opus_decoder_create L sampleRate channels w3);
       if decErr \<noteq> OPUS_OK \<or> d = 0 then do {
         w5 \<leftarrow> opus_encoder_destroy e w4;
         Some (0, w5)
       }
       else do {
         (ctx, w5) \<leftarrow> Some (malloc w4);
         if ctx = 0 then do {
           w6 \<leftarrow> opus_encoder_destroy e w5;
           w7 \<leftarrow> opus_decoder_destroy d w6;
           Some (0, w7)
         }
         else Some (handle_of_ptr ctx, store ctx (OpusCtxBlk \<lparr>enc = e, dec = d\<rparr>) w5)
       }
     }
   }"

definition nDestroy_opus :: "jlong \<Rightarrow> 's world \<Rightarrow> 's world option" where
  "nDestroy_opus handle w0 =
     (let ctx = ctx_from_handle handle
      in if ctx = 0 then Some w0
         else do {
           c \<leftarrow> load_OpusCtx ctx w0;
           w1 \<leftarrow> opus_encoder_destroy (enc c) w0;
           c' \<leftarrow> load_OpusCtx ctx w1;
           w2 \<leftarrow> opus_decoder_destroy (dec c') w1;
           free ctx w2
         })"

definition nEncode_opus ::
  "'s opus_lib \<Rightarrow> jni_runtime \<Rightarrow> jlong \<Rightarrow> aref \<Rightarrow> jint \<Rightarrow> aref \<Rightarrow> 's world
     \<Rightarrow> (jint \<times> 's world) option" where
  "nEncode_opus L R handle pcm framesPerChannel out w0 = do {
     let ctx = ctx_from_handle handle;
     (outLen, w1) \<leftarrow> GetArrayLength out w0;
     (pcmBuf, w2) \<leftarrow> GetShortArrayElements R pcm w1;
     (outBuf, w3) \<leftarrow> GetByteArrayElements R out w2;
     c \<leftarrow> load_OpusCtx ctx w3;
     (encoded, outBuf', w4) \<leftarrow> opus_encode L (enc c) pcmBuf framesPerChannel outBuf outLen w3;
     let w5 = ReleaseShortArrayElements pcm pcmBuf JNI_ABORT w4;
     let w6 = ReleaseByteArrayElements out outBuf' 0 w5;
     Some (encoded, w6)
   }"

definition nDecode_opus ::
  "'s opus_lib \<Rightarrow> jni_runtime \<Rightarrow> jlong \<Rightarrow> aref \<Rightarrow> aref \<Rightarrow> jint \<Rightarrow> 's world
     \<Rightarrow> (jint \<times> 's world) option" where
  "nDecode_opus L R handle encoded pcmOut maxFramesPerChannel w0 = do {
     let ctx = ctx_from_handle handle;
     (encLen, w1) \<leftarrow> GetArrayLength encoded w0;
     (encBuf, w2) \<leftarrow> GetByteArrayElements R encoded w1;
     (pcmBuf, w3) \<leftarrow> GetShortArrayElements R pcmOut w2;
     c \<leftarrow> load_OpusCtx ctx w3;
     (decoded, pcmBuf', w4) \<leftarrow> opus_decode L (dec c) encBuf encLen pcmBuf maxFramesPerChannel 0 w3;
     let w5 = ReleaseByteArrayElements encoded encBuf JNI_ABORT w4;
     let w6 = ReleaseShortArrayElements pcmOut pcmBuf' 0 w5;
     Some (decoded, w6)
   }"

definition sMethods_opus :: "JNINativeMethod list" where
  "sMethods_opus =
     [(''create'', ''(IIIII)J'', Fn_nCreate),
      (''destroy'', ''(J)V'', Fn_nDestroy),
      (''encode'', ''(J[SI[B)I'', Fn_nEncode),
      (''decode'', ''(J[B[SI)I'', Fn_nDecode)]"

text \<open>
  \<open>JNI_OnLoad\<close>: the value returned to the loader, and the runtime calls made on the
  way (\<open>DeleteLocalRef\<close> follows \<open>RegisterNatives\<close> whatever it answered).
\<close>
definition JNI_OnLoad_opus :: "jni_runtime \<Rightarrow> jint \<times> jni_call list" where
  "JNI_OnLoad_opus R =
     (let r = GetEnv_fn R JNI_VERSION_1_6
      in if r \<noteq> JNI_OK then (JNI_ERR, [J_GetEnv JNI_VERSION_1_6 r])
         else let cls = FindClass_fn R ''tech/torlando/lxst/codec/NativeOpus''
              in if cls = 0
                 then (JNI_ERR,
                       [J_GetEnv JNI_VERSION_1_6 r,
                        J_FindClass ''tech/torlando/lxst/codec/NativeOpus'' cls])
                 else let ret = RegisterNatives_fn R cls sMethods_opus
                                  (of_nat (length sMethods_opus))
                      in (if ret = 0 then JNI_VERSION_1_6 else JNI_ERR,
                          [J_GetEnv JNI_VERSION_1_6 r,
                           J_FindClass ''tech/torlando/lxst/codec/NativeOpus'' cls,
                           J_RegisterNatives cls (of_nat (length sMethods_opus)) ret,
                           J_DeleteLocalRef cls]))"

section \<open>lxst\_codec2\_jni.c\<close>

text \<open>
  \<open>nCreate\<close>: the context block first, then the engine; the block stays \<open>Raw\<close> until
  its three fields are written, and is freed when the engine refuses the mode.
\<close>
definition nCreate_codec2 ::
  "'s codec2_lib \<Rightarrow> jint \<Rightarrow> 's world \<Rightarrow> (jlong \<times> 's world) option" where
  "nCreate_codec2 L mode w0 = do {
     (ctx, w1) \<leftarrow> Some (malloc w0);
     if ctx = 0 then Some (0, w1)
     else do {
       (p, w2) \<leftarrow> Some (codec2_create L mode w1);
       if p = 0 then do {
         w3 \<leftarrow> free ctx w2;
         Some (0, w3)
       }
       else do {
         (n, w3) \<leftarrow> codec2_samples_per_frame L p w2;
         (b, w4) \<leftarrow> codec2_bytes_per_frame L p w3;
         Some (handle_of_ptr ctx,
               store ctx (Codec2CtxBlk \<lparr>c2 = p, nsam = n, nbyte = b\<rparr>) w4)
       }
     }
   }"

definition nDestroy_codec2 :: "jlong \<Rightarrow> 's world \<Rightarrow> 's world option" where
  "nDestroy_codec2 handle w0 =
     (let ctx = ctx_from_handle handle
      in if ctx = 0 then Some w0
         else do {
           c \<leftarrow> load_Codec2Ctx ctx w0;
           w1 \<leftarrow> codec2_destroy (c2 c) w0;
           free ctx w1
         })"

definition nGetSamplesPerFrame :: "jlong \<Rightarrow> 's world \<Rightarrow> jint option" where
  "nGetSamplesPerFrame handle w = map_option nsam (load_Codec2Ctx (ctx_from_handle handle) w)"

definition nGetFrameBytes :: "jlong \<Rightarrow> 's world \<Rightarrow> jint option" where
  "nGetFrameBytes handle w = map_option nbyte (load_Codec2Ctx (ctx_from_handle handle) w)"

definition nEncode_codec2 ::
  "'s codec2_lib \<Rightarrow> jni_runtime \<Rightarrow> jlong \<Rightarrow> aref \<Rightarrow> aref \<Rightarrow> 's world
     \<Rightarrow> (jint \<times> 's world) option" where
  "nEncode_codec2 L R handle pcm out w0 = do {
     let ctx = ctx_from_handle handle;
     (pcmBuf, w1) \<leftarrow> GetShortArrayElements R pcm w0;
     (outBuf, w2) \<leftarrow> GetByteArrayElements R out w1;
     c \<leftarrow> load_Codec2Ctx ctx w2;
     (outBuf', w3) \<leftarrow> codec2_encode L (c2 c) outBuf pcmBuf w2;
     let w4 = ReleaseShortArrayElements pcm pcmBuf JNI_ABORT w3;
     let w5 = ReleaseByteArrayElements out outBuf' 0 w4;
     c' \<leftarrow> load_Codec2Ctx ctx w5;
     Some (nbyte c', w5)
   }"

definition nDecode_codec2 ::
  "'s codec2_lib \<Rightarrow> jni_runtime \<Rightarrow> jlong \<Rightarrow> aref \<Rightarrow> aref \<Rightarrow> 's world
     \<Rightarrow> (jint \<times> 's world) option" where
  "nDecode_codec2 L R handle encoded pcmOut w0 = do {
     let ctx = ctx_from_handle handle;
     (encBuf, w1) \<leftarrow> GetByteArrayElements R encoded w0;
     (pcmBuf, w2) \<leftarrow> GetShortArrayElements R pcmOut w1;
     c \<leftarrow> load_Codec2Ctx ctx w2;
     (pcmBuf', w3) \<leftarrow> codec2_decode L (c2 c) pcmBuf encBuf w2;
     let w4 = ReleaseByteArrayElements encoded encBuf JNI_ABORT w3;
     let w5 = ReleaseShortArrayElements pcmOut pcmBuf' 0 w4;
     c' \<leftarrow> load_Codec2Ctx ctx w5;
     Some (nsam c', w5)
   }"

definition sMethods_codec2 :: "JNINativeMethod list" where
  "sMethods_codec2 =
     [(''create'', ''(I)J'', Fn_nCreate),
      (''destroy'', ''(J)V'', Fn_nDestroy),
      (''getSamplesPerFrame'', ''(J)I'', Fn_nGetSamplesPerFrame),
      (''getFrameBytes'', ''(J)I'', Fn_nGetFrameBytes),
      (''encode'', ''(J[S[B)I'', Fn_nEncode),
      (''decode'', ''(J[B[S)I'', Fn_nDecode)]"

definition JNI_OnLoad_codec2 :: "jni_runtime \<Rightarrow> jint \<times> jni_call list" where
  "JNI_OnLoad_codec2 R =
     (let r = GetEnv_fn R JNI_VERSION_1_6
      in if r \<noteq> JNI_OK then (JNI_ERR, [J_GetEnv JNI_VERSION_1_6 r])
         else let cls = FindClass_fn R ''tech/torlando/lxst/codec/NativeCodec2''
              in if cls = 0
                 then (JNI_ERR,
                       [J_GetEnv JNI_VERSION_1_6 r,
                        J_FindClass ''tech/torlando/lxst/codec/NativeCodec2'' cls])
                 else let ret = RegisterNatives_fn R cls sMethods_codec2
                                  (of_nat (length sMethods_codec2))
                      in (if ret = 0 then JNI_VERSION_1_6 else JNI_ERR,
                          [J_GetEnv JNI_VERSION_1_6 r,
                           J_FindClass ''tech/torlando/lxst/codec/NativeCodec2'' cls,
                           J_RegisterNatives cls (of_nat (length sMethods_codec2)) ret,
                           J_DeleteLocalRef cls]))"

section \<open>Vocabulary of the properties\<close>

text \<open>The calls a bridge function added to the log.\<close>
definition new_calls :: "'s world \<Rightarrow> 's world \<Rightarrow> call list" where
  "new_calls w w' = drop (length (calls w)) (calls w')"

text \<open>
  An initialisation step of \<open>nCreate\<close> that failed, as the code tests it:
  an engine constructor that reports an error or returns \<open>NULL\<close>, a \<open>malloc\<close>
  that returns \<open>NULL\<close>.
\<close>
fun init_step_failed :: "call \<Rightarrow> bool" where
  "init_step_failed (Ev_opus_encoder_create Fs ch app err p) = (err \<noteq> OPUS_OK \<or> p = 0)"
| "init_step_failed (Ev_opus_decoder_create Fs ch err p) = (err \<noteq> OPUS_OK \<or> p = 0)"
| "init_step_failed (Ev_codec2_create mode p) = (p = 0)"
| "init_step_failed (Ev_malloc p) = (p = 0)"
| "init_step_failed _ = False"

text \<open>The array views a call acquired, and the views it released with their modes, in order.\<close>
fun acquired_view :: "call \<Rightarrow> aref list" where
  "acquired_view (Ev_GetShortArrayElements a) = [a]"
| "acquired_view (Ev_GetByteArrayElements a) = [a]"
| "acquired_view _ = []"

fun released_view :: "call \<Rightarrow> (aref \<times> jint) list" where
  "released_view (Ev_ReleaseShortArrayElements a m) = [(a, m)]"
| "released_view (Ev_ReleaseByteArrayElements a m) = [(a, m)]"
| "released_view _ = []"

definition acquires :: "call list \<Rightarrow> aref list" where
  "acquires cs = concat (map acquired_view cs)"

definition releases :: "call list \<Rightarrow> (aref \<times> jint) list" where
  "releases cs = concat (map released_view cs)"


fun opus_decode_call :: "call \<Rightarrow> (jint \<times> jint \<times> jint \<times> jint) list" where
  "opus_decode_call (Ev_opus_decode p len frame_size decode_fec ret) = [(len, frame_size, decode_fec, ret)]"
| "opus_decode_call _ = []"


definition opus_decode_calls :: "call list \<Rightarrow> (jint \<times> jint \<times> jint \<times> jint) list" where
  "opus_decode_calls cs = concat (map opus_decode_call cs)"

text \<open>
  The buffer protocol of one transform: the input view is acquired first and
  released with \<open>JNI_ABORT\<close>, the output view is acquired second and released with
  mode 0, each exactly once, and no array but the output array changes.
\<close>
definition io_discipline :: "'s world \<Rightarrow> 's world \<Rightarrow> aref \<Rightarrow> aref \<Rightarrow> bool" where
  "io_discipline w w' input output =
     (acquires (new_calls w w') = [input, output] \<and>
      releases (new_calls w w') = [(input, JNI_ABORT), (output, 0)] \<and>
      arrays w' input = arrays w input \<and>
      (\<forall>a. a \<noteq> output \<longrightarrow> arrays w' a = arrays w a))"


text \<open>
  The engine's documented bound on \<open>opus_decode\<close>: it writes at most \<open>frame_size\<close>
  samples per channel, that is \<open>frame_size\<close> times the decoder's channel count
  interleaved samples; \<open>chans\<close> gives the channel count of a decoder state.
\<close>
definition opus_decode_bounded :: "'s opus_lib \<Rightarrow> ('s \<Rightarrow> nat) \<Rightarrow> bool" where
  "opus_decode_bounded L chans =
     (\<forall>st bs len fs fec r st' xs.
        opus_decode_fn L st bs len fs fec = Some (r, st', xs) \<longrightarrow>
        length xs \<le> nat (sint fs) * chans st)"

text \<open>
  A caller working on fixed-frame handles: any sequence of \<open>encode\<close>, \<open>decode\<close> and
  the two size queries, on any handles and arrays.  The run is \<open>None\<close> as soon as one
  call is undefined.
\<close>
datatype c2_call =
    Call_encode jlong aref aref
  | Call_decode jlong aref aref
  | Call_getSamplesPerFrame jlong
  | Call_getFrameBytes jlong

fun c2_step :: "'s codec2_lib \<Rightarrow> jni_runtime \<Rightarrow> c2_call \<Rightarrow> 's world \<Rightarrow> 's world option" where
  "c2_step L R (Call_encode h pcm out) w = map_option snd (nEncode_codec2 L R h pcm out w)"
| "c2_step L R (Call_decode h encoded pcmOut) w =
     map_option snd (nDecode_codec2 L R h encoded pcmOut w)"
| "c2_step L R (Call_getSamplesPerFrame h) w = map_option (\<lambda>n. w) (nGetSamplesPerFrame h w)"
| "c2_step L R (Call_getFrameBytes h) w = map_option (\<lambda>n. w) (nGetFrameBytes h w)"

fun c2_run :: "'s codec2_lib \<Rightarrow> jni_runtime \<Rightarrow> c2_call list \<Rightarrow> 's world \<Rightarrow> 's world option" where
  "c2_run L R [] w = Some w"
| "c2_run L R (c # cs) w = Option.bind (c2_step L R c w) (c2_run L R cs)"

text \<open>The calls that ask the engine for its frame geometry.\<close>
fun geometry_query :: "call \<Rightarrow> call list" where
  "geometry_query (Ev_codec2_samples_per_frame p n) = [Ev_codec2_samples_per_frame p n]"
| "geometry_query (Ev_codec2_bytes_per_frame p n) = [Ev_codec2_bytes_per_frame p n]"
| "geometry_query _ = []"

definition geometry_queries :: "call list \<Rightarrow> call list" where
  "geometry_queries cs = concat (map geometry_query cs)"

subsection \<open>A toy engine, runtime and world for concrete runs\<close>

definition ex_opus :: "nat opus_lib" where
  "ex_opus =
     \<lparr>opus_encoder_create_fn =
        (\<lambda>Fs ch app. if Fs = 48000 \<and> (ch = 1 \<or> ch = 2) then (0, Some 0) else (- 1, None)),
      opus_encoder_ctl_fn = (\<lambda>st req. (0, Suc st)),
      opus_decoder_create_fn =
        (\<lambda>Fs ch. if Fs = 48000 \<and> (ch = 1 \<or> ch = 2) then (0, Some 0) else (- 1, None)),
      opus_encode_fn =
        (\<lambda>st pcm fs mx. if 2 \<le> sint mx then Some (2, Suc st, [1, 2]) else Some (- 2, st, [])),
      opus_decode_fn =
        (\<lambda>st bs len fs fec.
           if len = 0 then Some (- 4, st, [])
           else if sint fs < 1 then Some (- 1, st, [])
           else Some (1, Suc st, [7]))\<rparr>"

definition ex_codec2 :: "nat codec2_lib" where
  "ex_codec2 =
     \<lparr>codec2_create_fn = (\<lambda>mode. if mode = 0 \<or> mode = 8 then Some 0 else None),
      codec2_samples_per_frame_fn = (\<lambda>st. 2),
      codec2_bytes_per_frame_fn = (\<lambda>st. 1),
      codec2_encode_fn = (\<lambda>st pcm. if length pcm < 2 then None else Some (Suc st, [9])),
      codec2_decode_fn = (\<lambda>st bs. if length bs < 1 then None else Some (Suc st, [3, 4]))\<rparr>"

definition ex_rt :: jni_runtime where
  "ex_rt = \<lparr>is_copy = (\<lambda>a. a = 1), GetEnv_fn = (\<lambda>v. 0), FindClass_fn = (\<lambda>n. 5),
            RegisterNatives_fn = (\<lambda>c ms n. 0)\<rparr>"

definition ex_world :: "nat world" where
  "ex_world =
     \<lparr>heap = Map.empty, plan = [16, 32, 48, 64],
      arrays = [1 \<mapsto> ShortArray [5, 6], 2 \<mapsto> ByteArray [0, 0, 0, 0]],
      calls = []\<rparr>"

text \<open>A handle that denotes a context block of either adapter.\<close>
definition live_handle :: "'s world \<Rightarrow> jlong \<Rightarrow> bool" where
  "live_handle w h =
     (ctx_from_handle h \<noteq> 0 \<and>
      (case heap w (ctx_from_handle h) of
         Some (OpusCtxBlk c) \<Rightarrow> True
       | Some (Codec2CtxBlk c) \<Rightarrow> True
       | _ \<Rightarrow> False))"

text \<open>
  A second runtime with the opposite choices: array 1 through a direct pointer,
  every other array as a copy.
\<close>
definition ex_rt_swapped :: jni_runtime where
  "ex_rt_swapped = ex_rt\<lparr>is_copy := (\<lambda>a. a \<noteq> 1)\<rparr>"

text \<open>A runtime whose \<open>GetEnv\<close> answers \<open>JNI_EDETACHED\<close>.\<close>
definition ex_rt_noenv :: jni_runtime where
  "ex_rt_noenv = ex_rt\<lparr>GetEnv_fn := (\<lambda>v. - 2)\<rparr>"

text \<open>A world with a live variable-frame handle 48 and a live fixed-frame handle 64.\<close>
definition ex_live :: "nat world" where
  "ex_live =
     \<lparr>heap = [16 \<mapsto> OpusEncoder 2, 32 \<mapsto> OpusDecoder 0, 48 \<mapsto> OpusCtxBlk \<lparr>enc = 16, dec = 32\<rparr>,
              80 \<mapsto> CODEC2 0, 64 \<mapsto> Codec2CtxBlk \<lparr>c2 = 80, nsam = 2, nbyte = 1\<rparr>],
      plan = [96, 112],
      arrays = [1 \<mapsto> ShortArray [5, 6], 2 \<mapsto> ByteArray [0, 0, 0, 0], 3 \<mapsto> ByteArray []],
      calls = []\<rparr>"

section \<open>Properties\<close>

subsection \<open>The allocator and the engine constructors\<close>

lemma alloc_fields:
  "heap (snd (alloc w)) = heap w" "arrays (snd (alloc w)) = arrays w" "calls (snd (alloc w)) = calls w"
  "plan (snd (alloc w)) = tl (plan w)"
  by (simp_all add: alloc_def split: list.split)

lemma alloc_fresh: "fst (alloc w) \<noteq> 0 \<Longrightarrow> heap w (fst (alloc w)) = None"
  by (simp add: alloc_def split: list.splits if_splits)

lemma alloc_shape:
  "plan v = plan w \<Longrightarrow> (\<forall>p. (heap v p = None) = (heap w p = None)) \<Longrightarrow> fst (alloc v) = fst (alloc w)"
  by (simp add: alloc_def split: list.splits)

lemma ctl_live:
  "heap w e = Some (OpusEncoder st) \<Longrightarrow>
   \<exists>r st' w'. opus_encoder_ctl L e req w = Some (r, w') \<and>
     heap w' = (heap w)(e \<mapsto> OpusEncoder st') \<and> plan w' = plan w \<and> arrays w' = arrays w \<and>
     calls w' = calls w @ [Ev_opus_encoder_ctl e req r]"
  by (auto simp: opus_encoder_ctl_def store_def log_def case_prod_beta)

lemma enc_create_cases:
  assumes "opus_encoder_create L Fs ch app w = ((err, e), w1)"
  shows "arrays w1 = arrays w"
    and "calls w1 = calls w @ [Ev_opus_encoder_create Fs ch app err e]"
    and "(e = 0 \<and> heap w1 = heap w) \<or>
         (e \<noteq> 0 \<and> heap w e = None \<and>
           (\<exists>st. opus_encoder_create_fn L Fs ch app = (err, Some st) \<and> heap w1 = (heap w)(e \<mapsto> OpusEncoder st)))"
  using assms
  by (auto simp: opus_encoder_create_def store_def log_def Let_def alloc_def
           split: prod.splits option.splits list.splits if_splits)

lemma dec_create_cases:
  assumes "opus_decoder_create L Fs ch w = ((err, d), w1)"
  shows "arrays w1 = arrays w"
    and "calls w1 = calls w @ [Ev_opus_decoder_create Fs ch err d]"
    and "(d = 0 \<and> heap w1 = heap w) \<or>
         (d \<noteq> 0 \<and> heap w d = None \<and>
           (\<exists>st. opus_decoder_create_fn L Fs ch = (err, Some st) \<and> heap w1 = (heap w)(d \<mapsto> OpusDecoder st)))"
  using assms
  by (auto simp: opus_decoder_create_def store_def log_def Let_def alloc_def
           split: prod.splits option.splits list.splits if_splits)

lemma malloc_cases:
  assumes "malloc w = (p, w1)"
  shows "arrays w1 = arrays w"
    and "calls w1 = calls w @ [Ev_malloc p]"
    and "(p = 0 \<and> heap w1 = heap w) \<or> (p \<noteq> 0 \<and> heap w p = None \<and> heap w1 = (heap w)(p \<mapsto> Raw))"
  using assms
  by (auto simp: malloc_def store_def log_def Let_def alloc_def
           split: prod.splits option.splits list.splits if_splits)

lemma enc_destroy_live:
  "heap w e = Some (OpusEncoder st) \<Longrightarrow>
   \<exists>w'. opus_encoder_destroy e w = Some w' \<and> heap w' = (heap w)(e := None) \<and>
     plan w' = plan w \<and> arrays w' = arrays w \<and> calls w' = calls w @ [Ev_opus_encoder_destroy e]"
  by (simp add: opus_encoder_destroy_def log_def)

lemma dec_destroy_live:
  "heap w d = Some (OpusDecoder st) \<Longrightarrow>
   \<exists>w'. opus_decoder_destroy d w = Some w' \<and> heap w' = (heap w)(d := None) \<and>
     plan w' = plan w \<and> arrays w' = arrays w \<and> calls w' = calls w @ [Ev_opus_decoder_destroy d]"
  by (simp add: opus_decoder_destroy_def log_def)

lemma upd_restore: "m p = None \<Longrightarrow> (m(p \<mapsto> x))(p := None) = m"
  by (simp add: fun_upd_idem)

lemma nCreate_opus_spec:
  "\<exists>h w'. nCreate_opus L sr ch app br cx w = Some (h, w') \<and> arrays w' = arrays w \<and>
     (\<forall>p. heap w p \<noteq> None \<longrightarrow> heap w' p = heap w p) \<and>
     ((h = 0) = (\<exists>c\<in>set (new_calls w w'). init_step_failed c)) \<and>
     (h = 0 \<longrightarrow>
        (fst (opus_encoder_create_fn L sr ch app) \<noteq> OPUS_OK \<longrightarrow> snd (opus_encoder_create_fn L sr ch app) = None) \<longrightarrow>
        (fst (opus_decoder_create_fn L sr ch) \<noteq> OPUS_OK \<longrightarrow> snd (opus_decoder_create_fn L sr ch) = None) \<longrightarrow>
        heap w' = heap w) \<and>
     (h \<noteq> 0 \<longrightarrow>
        (\<exists>e d s1 s2. ctx_from_handle h \<noteq> 0 \<and> handle_of_ptr (ctx_from_handle h) = h \<and>
           e \<noteq> d \<and> e \<noteq> ctx_from_handle h \<and> d \<noteq> ctx_from_handle h \<and>
           heap w e = None \<and> heap w d = None \<and> heap w (ctx_from_handle h) = None \<and>
           heap w' = (heap w)(e \<mapsto> OpusEncoder s1, d \<mapsto> OpusDecoder s2,
                              ctx_from_handle h \<mapsto> OpusCtxBlk \<lparr>enc = e, dec = d\<rparr>)))"
proof -
  obtain encErr e w1 where E: "opus_encoder_create L sr ch app w = ((encErr, e), w1)"
    by (metis surj_pair)
  note e = enc_create_cases[OF E]
  show ?thesis
  proof (cases "encErr \<noteq> OPUS_OK \<or> e = 0")
    case True
    have r: "nCreate_opus L sr ch app br cx w = Some (0, w1)"
      using True by (simp add: nCreate_opus_def E)
    show ?thesis
      unfolding r using True e by (auto simp: new_calls_def)
  next
    case False
    then have ok: "encErr = OPUS_OK" "e \<noteq> 0" by auto
    from e(3) ok(2) obtain st where
      we: "heap w e = None" and h1: "heap w1 = (heap w)(e \<mapsto> OpusEncoder st)" by blast
    from ctl_live[of w1 e st L "OPUS_SET_BITRATE br"] h1 obtain r2 st2 w2 where
      c2: "opus_encoder_ctl L e (OPUS_SET_BITRATE br) w1 = Some (r2, w2)"
      and h2: "heap w2 = (heap w)(e \<mapsto> OpusEncoder st2)" and a2: "arrays w2 = arrays w1"
      and l2: "calls w2 = calls w1 @ [Ev_opus_encoder_ctl e (OPUS_SET_BITRATE br) r2]"
      by auto
    from ctl_live[of w2 e st2 L "OPUS_SET_COMPLEXITY cx"] h2 obtain r3 st3 w3 where
      c3: "opus_encoder_ctl L e (OPUS_SET_COMPLEXITY cx) w2 = Some (r3, w3)"
      and h3: "heap w3 = (heap w)(e \<mapsto> OpusEncoder st3)" and a3: "arrays w3 = arrays w2"
      and l3: "calls w3 = calls w2 @ [Ev_opus_encoder_ctl e (OPUS_SET_COMPLEXITY cx) r3]"
      by auto
    obtain decErr d w4 where D: "opus_decoder_create L sr ch w3 = ((decErr, d), w4)"
      by (metis surj_pair)
    note d = dec_create_cases[OF D]
    show ?thesis
    proof (cases "decErr \<noteq> OPUS_OK \<or> d = 0")
      case True
      have live: "heap w4 e = Some (OpusEncoder st3)"
        using d(3) h3 by auto
      from enc_destroy_live[OF live] obtain w5 where
        x5: "opus_encoder_destroy e w4 = Some w5" and h5: "heap w5 = (heap w4)(e := None)"
        and a5: "arrays w5 = arrays w4" and l5: "calls w5 = calls w4 @ [Ev_opus_encoder_destroy e]"
        by blast
      have r: "nCreate_opus L sr ch app br cx w = Some (0, w5)"
        using True ok by (simp add: nCreate_opus_def E c2 c3 D x5)
      have old: "\<forall>p. heap w p \<noteq> None \<longrightarrow> heap w5 p = heap w p"
        using h5 d(3) h3 we by auto
      have rc: "heap w5 = heap w \<or>
          (fst (opus_decoder_create_fn L sr ch) \<noteq> OPUS_OK \<and> snd (opus_decoder_create_fn L sr ch) \<noteq> None)"
        using h5 d(3) h3 we True by (auto simp: upd_restore)
      show ?thesis
        unfolding r using old rc True e(1,2) a2 a3 l2 l3 d(1,2) a5 l5
        by (auto simp: new_calls_def)
    next
      case False
      then have dok: "decErr = OPUS_OK" "d \<noteq> 0" by auto
      from d(3) dok(2) obtain sd where
        wd: "heap w3 d = None" and h4: "heap w4 = (heap w3)(d \<mapsto> OpusDecoder sd)" by blast
      have de: "d \<noteq> e" and wd': "heap w d = None" using wd h3 by (auto split: if_splits)
      obtain ctx w5 where M: "malloc w4 = (ctx, w5)" by (metis surj_pair)
      note m = malloc_cases[OF M]
      show ?thesis
      proof (cases "ctx = 0")
        case True
        have live: "heap w5 e = Some (OpusEncoder st3)"
          using m(3) True h4 h3 de by auto
        from enc_destroy_live[OF live] obtain w6 where
          x6: "opus_encoder_destroy e w5 = Some w6" and h6: "heap w6 = (heap w5)(e := None)"
          and a6: "arrays w6 = arrays w5" and l6: "calls w6 = calls w5 @ [Ev_opus_encoder_destroy e]"
          by blast
        have live2: "heap w6 d = Some (OpusDecoder sd)"
          using h6 m(3) True h4 de by auto
        from dec_destroy_live[OF live2] obtain w7 where
          x7: "opus_decoder_destroy d w6 = Some w7" and h7: "heap w7 = (heap w6)(d := None)"
          and a7: "arrays w7 = arrays w6" and l7: "calls w7 = calls w6 @ [Ev_opus_decoder_destroy d]"
          by blast
        have r: "nCreate_opus L sr ch app br cx w = Some (0, w7)"
          using True ok dok by (simp add: nCreate_opus_def E c2 c3 D M x6 x7)
        have restored: "heap w7 = heap w"
          using h7 h6 m(3) True h4 h3 we wd' de by (auto simp: fun_eq_iff)
        show ?thesis
          unfolding r using restored True e(1,2) a2 a3 l2 l3 d(1,2) m(1,2) a6 l6 a7 l7
          by (auto simp: new_calls_def)
      next
        case False
        from m(3) False have wc: "heap w4 ctx = None" and h5: "heap w5 = (heap w4)(ctx \<mapsto> Raw)"
          by auto
        have ne: "ctx \<noteq> e" "ctx \<noteq> d" and wc': "heap w ctx = None"
          using wc h4 h3 by (auto split: if_splits)
        have r: "nCreate_opus L sr ch app br cx w =
                   Some (handle_of_ptr ctx, store ctx (OpusCtxBlk \<lparr>enc = e, dec = d\<rparr>) w5)"
          using False ok dok by (simp add: nCreate_opus_def E c2 c3 D M)
        have hp: "handle_of_ptr ctx \<noteq> 0" "ctx_from_handle (handle_of_ptr ctx) = ctx"
          using False by (simp_all add: handle_of_ptr_def ctx_from_handle_def)
        have hf: "heap (store ctx (OpusCtxBlk \<lparr>enc = e, dec = d\<rparr>) w5) =
                  (heap w)(e \<mapsto> OpusEncoder st3, d \<mapsto> OpusDecoder sd, ctx \<mapsto> OpusCtxBlk \<lparr>enc = e, dec = d\<rparr>)"
          using h5 h4 h3 by (simp add: store_def)
        have nofail: "\<not> (\<exists>c\<in>set (new_calls w (store ctx (OpusCtxBlk \<lparr>enc = e, dec = d\<rparr>) w5)). init_step_failed c)"
          using ok dok False e(2) l2 l3 d(2) m(2) by (simp add: new_calls_def store_def)
        have old: "\<forall>p. heap w p \<noteq> None \<longrightarrow> heap (store ctx (OpusCtxBlk \<lparr>enc = e, dec = d\<rparr>) w5) p = heap w p"
          unfolding hf using we wd' wc' by auto
        have ar: "arrays (store ctx (OpusCtxBlk \<lparr>enc = e, dec = d\<rparr>) w5) = arrays w"
          using e(1) a2 a3 d(1) m(1) by (simp add: store_def)
        have six: "\<exists>e' d' s1 s2. ctx_from_handle (handle_of_ptr ctx) \<noteq> 0 \<and>
           handle_of_ptr (ctx_from_handle (handle_of_ptr ctx)) = handle_of_ptr ctx \<and>
           e' \<noteq> d' \<and> e' \<noteq> ctx_from_handle (handle_of_ptr ctx) \<and> d' \<noteq> ctx_from_handle (handle_of_ptr ctx) \<and>
           heap w e' = None \<and> heap w d' = None \<and> heap w (ctx_from_handle (handle_of_ptr ctx)) = None \<and>
           heap (store ctx (OpusCtxBlk \<lparr>enc = e, dec = d\<rparr>) w5) =
             (heap w)(e' \<mapsto> OpusEncoder s1, d' \<mapsto> OpusDecoder s2,
                      ctx_from_handle (handle_of_ptr ctx) \<mapsto> OpusCtxBlk \<lparr>enc = e', dec = d'\<rparr>)"
          apply (rule exI[of _ e], rule exI[of _ d], rule exI[of _ st3], rule exI[of _ sd])
          using hp hf we wd' wc' ne de False by simp
        show ?thesis
          unfolding r
          apply (rule exI[of _ "handle_of_ptr ctx"])
          apply (rule exI[of _ "store ctx (OpusCtxBlk \<lparr>enc = e, dec = d\<rparr>) w5"])
          using ar old hp(1) nofail six by simp
      qed
    qed
  qed
qed

lemma dec_create_shape:
  assumes "plan v = plan w" and "\<forall>p. (heap v p = None) = (heap w p = None)"
  shows "fst (opus_decoder_create L Fs ch v) = fst (opus_decoder_create L Fs ch w) \<and>
         plan (snd (opus_decoder_create L Fs ch v)) = plan (snd (opus_decoder_create L Fs ch w)) \<and>
         (\<forall>p. (heap (snd (opus_decoder_create L Fs ch v)) p = None) =
              (heap (snd (opus_decoder_create L Fs ch w)) p = None))"
  using assms
  by (auto simp: opus_decoder_create_def alloc_def store_def log_def Let_def
           split: prod.splits option.splits list.splits)

lemma malloc_shape:
  assumes "plan v = plan w" and "\<forall>p. (heap v p = None) = (heap w p = None)"
  shows "fst (malloc v) = fst (malloc w)"
  using assms
  by (auto simp: malloc_def alloc_def store_def log_def Let_def split: prod.splits list.splits)

lemma nCreate_opus_handle:
  assumes R: "nCreate_opus L sr ch app br cx w = Some (h, w')"
      and E: "opus_encoder_create L sr ch app w = ((encErr, e), w1)"
      and D: "opus_decoder_create L sr ch w1 = ((decErr, d), w4)"
      and M: "malloc w4 = (ctx, w5)"
  shows "h = (if encErr \<noteq> OPUS_OK \<or> e = 0 \<or> decErr \<noteq> OPUS_OK \<or> d = 0 then 0
              else handle_of_ptr ctx)"
proof (cases "encErr \<noteq> OPUS_OK \<or> e = 0")
  case True
  then show ?thesis using R by (auto simp: nCreate_opus_def E)
next
  case False
  then have ok: "encErr = OPUS_OK" "e \<noteq> 0" by auto
  from enc_create_cases(3)[OF E] ok(2) obtain st where
    h1: "heap w1 e = Some (OpusEncoder st)" by auto
  from ctl_live[OF h1, of L "OPUS_SET_BITRATE br"] obtain r2 st2 w2 where
    c2: "opus_encoder_ctl L e (OPUS_SET_BITRATE br) w1 = Some (r2, w2)"
    and h2: "heap w2 = (heap w1)(e \<mapsto> OpusEncoder st2)" and p2: "plan w2 = plan w1"
    by blast
  have l2: "heap w2 e = Some (OpusEncoder st2)" using h2 by simp
  from ctl_live[OF l2, of L "OPUS_SET_COMPLEXITY cx"] obtain r3 st3 w3 where
    c3: "opus_encoder_ctl L e (OPUS_SET_COMPLEXITY cx) w2 = Some (r3, w3)"
    and h3: "heap w3 = (heap w2)(e \<mapsto> OpusEncoder st3)" and p3: "plan w3 = plan w2"
    by blast
  have sh: "plan w3 = plan w1" "\<forall>p. (heap w3 p = None) = (heap w1 p = None)"
    using p2 p3 h2 h3 h1 by auto
  obtain decErr' d' w4' where D': "opus_decoder_create L sr ch w3 = ((decErr', d'), w4')"
    by (metis surj_pair)
  from dec_create_shape[OF sh, of L sr ch] D D'
  have same: "decErr' = decErr" "d' = d" and sh4: "plan w4' = plan w4"
    "\<forall>p. (heap w4' p = None) = (heap w4 p = None)"
    by auto
  obtain ctx' w5' where M': "malloc w4' = (ctx', w5')" by (metis surj_pair)
  from malloc_shape[OF sh4] M M' have sc: "ctx' = ctx" by simp
  show ?thesis
    using R ok same sc
    by (auto simp: nCreate_opus_def E c2 c3 D' M' handle_of_ptr_def split: Option.bind_splits if_splits)
qed

lemma GetArrayLength_inv:
  "GetArrayLength a w = Some (n, w1) \<Longrightarrow>
     a \<noteq> 0 \<and> w1 = w\<lparr>calls := calls w @ [Ev_GetArrayLength a n]\<rparr> \<and>
     ((\<exists>xs. arrays w a = Some (ShortArray xs) \<and> n = of_nat (length xs)) \<or>
      (\<exists>bs. arrays w a = Some (ByteArray bs) \<and> n = of_nat (length bs)))"
  by (auto simp: GetArrayLength_def log_def split: if_splits option.splits jarray.splits)

lemma GetShortArrayElements_inv:
  "GetShortArrayElements R a w = Some (v, w1) \<Longrightarrow>
     a \<noteq> 0 \<and> w1 = w\<lparr>calls := calls w @ [Ev_GetShortArrayElements a]\<rparr> \<and>
     (\<exists>xs. arrays w a = Some (ShortArray xs) \<and>
           v = \<lparr>v_array = a, v_copy = is_copy R a, v_buf = xs\<rparr>)"
  by (auto simp: GetShortArrayElements_def log_def split: if_splits option.splits jarray.splits)

lemma GetByteArrayElements_inv:
  "GetByteArrayElements R a w = Some (v, w1) \<Longrightarrow>
     a \<noteq> 0 \<and> w1 = w\<lparr>calls := calls w @ [Ev_GetByteArrayElements a]\<rparr> \<and>
     (\<exists>xs. arrays w a = Some (ByteArray xs) \<and>
           v = \<lparr>v_array = a, v_copy = is_copy R a, v_buf = xs\<rparr>)"
  by (auto simp: GetByteArrayElements_def log_def split: if_splits option.splits jarray.splits)

lemma load_OpusCtx_inv:
  "load_OpusCtx p w = Some c \<Longrightarrow> p \<noteq> 0 \<and> heap w p = Some (OpusCtxBlk c)"
  by (auto simp: load_OpusCtx_def split: if_splits option.splits obj.splits)

lemma load_Codec2Ctx_inv:
  "load_Codec2Ctx p w = Some c \<Longrightarrow> p \<noteq> 0 \<and> heap w p = Some (Codec2CtxBlk c)"
  by (auto simp: load_Codec2Ctx_def split: if_splits option.splits obj.splits)

lemma write_bytes_inv:
  "write_bytes v bs w = Some (v', w1) \<Longrightarrow>
     length bs \<le> length (v_buf v) \<and> v' = v\<lparr>v_buf := overlay bs (v_buf v)\<rparr> \<and>
     w1 = (if v_copy v then w
           else w\<lparr>arrays := (arrays w)(v_array v \<mapsto> ByteArray (overlay bs (v_buf v)))\<rparr>)"
  by (auto simp: write_bytes_def split: if_splits)

lemma write_shorts_inv:
  "write_shorts v bs w = Some (v', w1) \<Longrightarrow>
     length bs \<le> length (v_buf v) \<and> v' = v\<lparr>v_buf := overlay bs (v_buf v)\<rparr> \<and>
     w1 = (if v_copy v then w
           else w\<lparr>arrays := (arrays w)(v_array v \<mapsto> ShortArray (overlay bs (v_buf v)))\<rparr>)"
  by (auto simp: write_shorts_def split: if_splits)

lemma opus_encode_inv:
  "opus_encode L p pcm fs data mx w = Some (ret, data', w') \<Longrightarrow>
     \<exists>st st' bs w1. heap w p = Some (OpusEncoder st) \<and>
        opus_encode_fn L st (v_buf pcm) fs mx = Some (ret, st', bs) \<and>
        write_bytes data bs w = Some (data', w1) \<and>
        w' = w1\<lparr>heap := (heap w1)(p \<mapsto> OpusEncoder st'),
                calls := calls w1 @ [Ev_opus_encode p fs mx ret]\<rparr>"
  by (auto simp: opus_encode_def store_def log_def
           split: option.splits obj.splits Option.bind_splits)

lemma opus_decode_inv:
  "opus_decode L p data len pcm fs fec w = Some (ret, pcm', w') \<Longrightarrow>
     \<exists>st st' xs w1. heap w p = Some (OpusDecoder st) \<and>
        opus_decode_fn L st (v_buf data) len fs fec = Some (ret, st', xs) \<and>
        write_shorts pcm xs w = Some (pcm', w1) \<and>
        w' = w1\<lparr>heap := (heap w1)(p \<mapsto> OpusDecoder st'),
                calls := calls w1 @ [Ev_opus_decode p len fs fec ret]\<rparr>"
  by (auto simp: opus_decode_def store_def log_def
           split: option.splits obj.splits Option.bind_splits)

lemma codec2_encode_inv:
  "codec2_encode L p bytes speech_in w = Some (bytes', w') \<Longrightarrow>
     \<exists>st st' bs w1. heap w p = Some (CODEC2 st) \<and>
        codec2_encode_fn L st (v_buf speech_in) = Some (st', bs) \<and>
        write_bytes bytes bs w = Some (bytes', w1) \<and>
        w' = w1\<lparr>heap := (heap w1)(p \<mapsto> CODEC2 st'),
                calls := calls w1 @ [Ev_codec2_encode p]\<rparr>"
  by (auto simp: codec2_encode_def store_def log_def
           split: option.splits obj.splits Option.bind_splits)

lemma codec2_decode_inv:
  "codec2_decode L p speech_out bytes w = Some (speech_out', w') \<Longrightarrow>
     \<exists>st st' xs w1. heap w p = Some (CODEC2 st) \<and>
        codec2_decode_fn L st (v_buf bytes) = Some (st', xs) \<and>
        write_shorts speech_out xs w = Some (speech_out', w1) \<and>
        w' = w1\<lparr>heap := (heap w1)(p \<mapsto> CODEC2 st'),
                calls := calls w1 @ [Ev_codec2_decode p]\<rparr>"
  by (auto simp: codec2_decode_def store_def log_def
           split: option.splits obj.splits Option.bind_splits)

lemma c2_create_cases:
  assumes "codec2_create L mode w = (p, w1)"
  shows "arrays w1 = arrays w"
    and "calls w1 = calls w @ [Ev_codec2_create mode p]"
    and "(p = 0 \<and> heap w1 = heap w) \<or>
         (p \<noteq> 0 \<and> heap w p = None \<and>
           (\<exists>st. codec2_create_fn L mode = Some st \<and> heap w1 = (heap w)(p \<mapsto> CODEC2 st)))"
  using assms
  by (auto simp: codec2_create_def store_def log_def Let_def alloc_def
           split: prod.splits option.splits list.splits if_splits)

lemma c2_geometry_live:
  "heap w p = Some (CODEC2 st) \<Longrightarrow>
     codec2_samples_per_frame L p w =
       Some (codec2_samples_per_frame_fn L st,
             log (Ev_codec2_samples_per_frame p (codec2_samples_per_frame_fn L st)) w) \<and>
     codec2_bytes_per_frame L p w =
       Some (codec2_bytes_per_frame_fn L st,
             log (Ev_codec2_bytes_per_frame p (codec2_bytes_per_frame_fn L st)) w)"
  by (simp add: codec2_samples_per_frame_def codec2_bytes_per_frame_def Let_def)

lemma handle_roundtrip:
  "ctx_from_handle (handle_of_ptr p) = p" "handle_of_ptr (ctx_from_handle h) = h"
  "(handle_of_ptr p = 0) = (p = 0)" "(ctx_from_handle h = 0) = (h = 0)"
  by (simp_all add: handle_of_ptr_def ctx_from_handle_def)

lemma nCreate_codec2_spec:
  "\<exists>h w'. nCreate_codec2 L mode w = Some (h, w') \<and> arrays w' = arrays w \<and>
     (\<forall>p. heap w p \<noteq> None \<longrightarrow> heap w' p = heap w p) \<and>
     ((h = 0) = (\<exists>c\<in>set (new_calls w w'). init_step_failed c)) \<and>
     (h = 0 \<longrightarrow> heap w' = heap w) \<and>
     (h \<noteq> 0 \<longrightarrow>
        (\<exists>p st. p \<noteq> 0 \<and> p \<noteq> ctx_from_handle h \<and>
           heap w p = None \<and> heap w (ctx_from_handle h) = None \<and>
           codec2_create_fn L mode = Some st \<and>
           heap w' = (heap w)(p \<mapsto> CODEC2 st,
                              ctx_from_handle h \<mapsto>
                                Codec2CtxBlk \<lparr>c2 = p, nsam = codec2_samples_per_frame_fn L st,
                                              nbyte = codec2_bytes_per_frame_fn L st\<rparr>) \<and>
           new_calls w w' =
             [Ev_malloc (ctx_from_handle h), Ev_codec2_create mode p,
              Ev_codec2_samples_per_frame p (codec2_samples_per_frame_fn L st),
              Ev_codec2_bytes_per_frame p (codec2_bytes_per_frame_fn L st)]))"
proof -
  obtain ctx w1 where M: "malloc w = (ctx, w1)" by (metis surj_pair)
  note m = malloc_cases[OF M]
  show ?thesis
  proof (cases "ctx = 0")
    case True
    have r: "nCreate_codec2 L mode w = Some (0, w1)"
      using True by (simp add: nCreate_codec2_def M)
    show ?thesis unfolding r using True m by (auto simp: new_calls_def)
  next
    case False
    with m(3) have wc: "heap w ctx = None" and h1: "heap w1 = (heap w)(ctx \<mapsto> Raw)" by auto
    obtain p w2 where C: "codec2_create L mode w1 = (p, w2)" by (metis surj_pair)
    note c = c2_create_cases[OF C]
    show ?thesis
    proof (cases "p = 0")
      case True
      with c(3) have h2: "heap w2 = heap w1" by auto
      have f: "free ctx w2 = Some (log (Ev_free ctx) (w2\<lparr>heap := (heap w2)(ctx := None)\<rparr>))"
        using False h2 h1 by (simp add: free_def)
      have r: "nCreate_codec2 L mode w =
                 Some (0, log (Ev_free ctx) (w2\<lparr>heap := (heap w2)(ctx := None)\<rparr>))"
        using True False by (simp add: nCreate_codec2_def M C f)
      have restored: "(heap w2)(ctx := None) = heap w"
        using h2 h1 wc by (auto simp: fun_eq_iff)
      show ?thesis unfolding r using True restored m(1,2) c(1,2)
        by (auto simp: new_calls_def log_def)
    next
      case False
      note pnz = this
      with c(3) obtain st where wp: "heap w1 p = None" and cf: "codec2_create_fn L mode = Some st"
        and h2: "heap w2 = (heap w1)(p \<mapsto> CODEC2 st)" by auto
      have pc: "p \<noteq> ctx" and wp': "heap w p = None" using wp h1 by (auto split: if_splits)
      have lv: "heap w2 p = Some (CODEC2 st)" using h2 by simp
      let ?n = "codec2_samples_per_frame_fn L st" and ?b = "codec2_bytes_per_frame_fn L st"
      let ?w3 = "log (Ev_codec2_samples_per_frame p ?n) w2"
      let ?w4 = "log (Ev_codec2_bytes_per_frame p ?b) ?w3"
      let ?w' = "store ctx (Codec2CtxBlk \<lparr>c2 = p, nsam = ?n, nbyte = ?b\<rparr>) ?w4"
      have g1: "codec2_samples_per_frame L p w2 = Some (?n, ?w3)"
        using c2_geometry_live[OF lv] by simp
      have lv3: "heap ?w3 p = Some (CODEC2 st)" using lv by (simp add: log_def)
      have g2: "codec2_bytes_per_frame L p ?w3 = Some (?b, ?w4)"
        using c2_geometry_live[OF lv3] by simp
      have r: "nCreate_codec2 L mode w = Some (handle_of_ptr ctx, ?w')"
        using \<open>ctx \<noteq> 0\<close> pnz by (simp add: nCreate_codec2_def M C g1 g2)
      have hf: "heap ?w' = (heap w)(p \<mapsto> CODEC2 st,
                  ctx \<mapsto> Codec2CtxBlk \<lparr>c2 = p, nsam = ?n, nbyte = ?b\<rparr>)"
        using h2 h1 pc by (auto simp: store_def log_def fun_eq_iff)
      have nc: "new_calls w ?w' = [Ev_malloc ctx, Ev_codec2_create mode p,
              Ev_codec2_samples_per_frame p ?n, Ev_codec2_bytes_per_frame p ?b]"
        using m(2) c(2) by (simp add: new_calls_def store_def log_def)
      have ar: "arrays ?w' = arrays w" using m(1) c(1) by (simp add: store_def log_def)
      have old: "\<forall>q. heap w q \<noteq> None \<longrightarrow> heap ?w' q = heap w q"
        unfolding hf using wp' wc by auto
      have six: "\<exists>p' st'. p' \<noteq> 0 \<and> p' \<noteq> ctx_from_handle (handle_of_ptr ctx) \<and>
           heap w p' = None \<and> heap w (ctx_from_handle (handle_of_ptr ctx)) = None \<and>
           codec2_create_fn L mode = Some st' \<and>
           heap ?w' = (heap w)(p' \<mapsto> CODEC2 st',
                              ctx_from_handle (handle_of_ptr ctx) \<mapsto>
                                Codec2CtxBlk \<lparr>c2 = p', nsam = codec2_samples_per_frame_fn L st',
                                              nbyte = codec2_bytes_per_frame_fn L st'\<rparr>) \<and>
           new_calls w ?w' =
             [Ev_malloc (ctx_from_handle (handle_of_ptr ctx)), Ev_codec2_create mode p',
              Ev_codec2_samples_per_frame p' (codec2_samples_per_frame_fn L st'),
              Ev_codec2_bytes_per_frame p' (codec2_bytes_per_frame_fn L st')]"
        apply (rule exI[of _ p], rule exI[of _ st])
        using pnz pc wp' wc cf hf nc by (simp add: handle_roundtrip)
      have nofail: "\<not> (\<exists>c\<in>set (new_calls w ?w'). init_step_failed c)"
        unfolding nc using pnz \<open>ctx \<noteq> 0\<close> by simp
      have hz: "handle_of_ptr ctx \<noteq> 0" using \<open>ctx \<noteq> 0\<close> by (simp add: handle_roundtrip)
      show ?thesis
        unfolding r
        apply (rule exI[of _ "handle_of_ptr ctx"])
        apply (rule exI[of _ ?w'])
        using ar old hz nofail six by simp
    qed
  qed
qed

lemma nDestroy_zero:
  "nDestroy_opus 0 w = Some w" "nDestroy_codec2 0 w = Some w"
  by (simp_all add: nDestroy_opus_def nDestroy_codec2_def ctx_from_handle_def)

lemma nDestroy_opus_live:
  assumes c: "load_OpusCtx (ctx_from_handle h) w = Some c"
      and e: "heap w (enc c) = Some (OpusEncoder s1)"
      and d: "heap w (dec c) = Some (OpusDecoder s2)"
  shows "\<exists>w'. nDestroy_opus h w = Some w' \<and>
           heap w' = (heap w)(enc c := None, dec c := None, ctx_from_handle h := None) \<and>
           calls w' = calls w @ [Ev_opus_encoder_destroy (enc c), Ev_opus_decoder_destroy (dec c),
                                 Ev_free (ctx_from_handle h)] \<and>
           arrays w' = arrays w \<and> plan w' = plan w"
proof -
  from load_OpusCtx_inv[OF c] have nz: "ctx_from_handle h \<noteq> 0"
    and hc: "heap w (ctx_from_handle h) = Some (OpusCtxBlk c)" by auto
  have ne: "enc c \<noteq> ctx_from_handle h" "dec c \<noteq> ctx_from_handle h" "enc c \<noteq> dec c"
    using hc e d by auto
  show ?thesis
    using nz hc e d ne
    by (simp add: nDestroy_opus_def load_OpusCtx_def opus_encoder_destroy_def
          opus_decoder_destroy_def free_def log_def Let_def)
qed

lemma nDestroy_codec2_live:
  assumes c: "load_Codec2Ctx (ctx_from_handle h) w = Some c"
      and e: "heap w (c2 c) = Some (CODEC2 s1)"
  shows "\<exists>w'. nDestroy_codec2 h w = Some w' \<and>
           heap w' = (heap w)(c2 c := None, ctx_from_handle h := None) \<and>
           calls w' = calls w @ [Ev_codec2_destroy (c2 c), Ev_free (ctx_from_handle h)] \<and>
           arrays w' = arrays w \<and> plan w' = plan w"
proof -
  from load_Codec2Ctx_inv[OF c] have nz: "ctx_from_handle h \<noteq> 0"
    and hc: "heap w (ctx_from_handle h) = Some (Codec2CtxBlk c)" by auto
  have ne: "c2 c \<noteq> ctx_from_handle h"
    using hc e by auto
  show ?thesis
    using nz hc e ne
    by (simp add: nDestroy_codec2_def load_Codec2Ctx_def codec2_destroy_def free_def log_def Let_def)
qed


lemma live_handle_heap: "live_handle w k \<Longrightarrow> heap w (ctx_from_handle k) \<noteq> None"
  by (auto simp: live_handle_def split: option.splits obj.splits)

subsection \<open>The transforms, step by step\<close>

lemmas release_defs = ReleaseByteArrayElements_def ReleaseShortArrayElements_def log_def JNI_ABORT_def

lemma nEncode_opus_inv:
  assumes "nEncode_opus L R h pcm fpc out w = Some (r, w')"
  shows "\<exists>c st st' xs old bs.
           ctx_from_handle h \<noteq> 0 \<and> pcm \<noteq> 0 \<and> out \<noteq> 0 \<and>
           heap w (ctx_from_handle h) = Some (OpusCtxBlk c) \<and>
           heap w (enc c) = Some (OpusEncoder st) \<and>
           arrays w pcm = Some (ShortArray xs) \<and>
           arrays w out = Some (ByteArray old) \<and>
           opus_encode_fn L st xs fpc (of_nat (length old)) = Some (r, st', bs) \<and>
           length bs \<le> length old \<and>
           w' = w\<lparr>heap := (heap w)(enc c \<mapsto> OpusEncoder st'),
                  arrays := (arrays w)(out \<mapsto> ByteArray (overlay bs old)),
                  calls := calls w @
                    [Ev_GetArrayLength out (of_nat (length old)),
                     Ev_GetShortArrayElements pcm,
                     Ev_GetByteArrayElements out,
                     Ev_opus_encode (enc c) fpc (of_nat (length old)) r,
                     Ev_ReleaseShortArrayElements pcm JNI_ABORT,
                     Ev_ReleaseByteArrayElements out 0]\<rparr>"
proof -
  from assms obtain outLen w1 pcmBuf w2 outBuf w3 c outBuf' w4 where
    s1: "GetArrayLength out w = Some (outLen, w1)" and
    s2: "GetShortArrayElements R pcm w1 = Some (pcmBuf, w2)" and
    s3: "GetByteArrayElements R out w2 = Some (outBuf, w3)" and
    s4: "load_OpusCtx (ctx_from_handle h) w3 = Some c" and
    s5: "opus_encode L (enc c) pcmBuf fpc outBuf outLen w3 = Some (r, outBuf', w4)" and
    s6: "w' = ReleaseByteArrayElements out outBuf' 0 (ReleaseShortArrayElements pcm pcmBuf JNI_ABORT w4)"
    unfolding nEncode_opus_def
    by (auto simp: Let_def split: Option.bind_splits)
  note i1 = GetArrayLength_inv[OF s1] and i2 = GetShortArrayElements_inv[OF s2]
    and i3 = GetByteArrayElements_inv[OF s3] and i4 = load_OpusCtx_inv[OF s4]
  from opus_encode_inv[OF s5] obtain st st' bs w5 where
    e1: "heap w3 (enc c) = Some (OpusEncoder st)" and
    e2: "opus_encode_fn L st (v_buf pcmBuf) fpc outLen = Some (r, st', bs)" and
    e3: "write_bytes outBuf bs w3 = Some (outBuf', w5)" and
    e4: "w4 = w5\<lparr>heap := (heap w5)(enc c \<mapsto> OpusEncoder st'),
                  calls := calls w5 @ [Ev_opus_encode (enc c) fpc outLen r]\<rparr>"
    by blast
  note i5 = write_bytes_inv[OF e3]
  from i1 i2 i3 obtain xs old where
    a1: "arrays w pcm = Some (ShortArray xs)" and a2: "arrays w out = Some (ByteArray old)"
    and v1: "pcmBuf = \<lparr>v_array = pcm, v_copy = is_copy R pcm, v_buf = xs\<rparr>"
    and v2: "outBuf = \<lparr>v_array = out, v_copy = is_copy R out, v_buf = old\<rparr>"
    and n: "outLen = of_nat (length old)"
    by auto
  have ne: "pcm \<noteq> out" using a1 a2 by auto
  show ?thesis
    apply (rule exI[of _ c], rule exI[of _ st], rule exI[of _ st'], rule exI[of _ xs],
           rule exI[of _ old], rule exI[of _ bs])
    using i1 i2 i3 i4 i5 e1 e2 e4 a1 a2 v1 v2 n ne s6
    by (auto simp: release_defs)
qed

lemma nDecode_opus_inv:
  assumes "nDecode_opus L R h encoded pcmOut mfpc w = Some (r, w')"
  shows "\<exists>c st st' bs old xs.
           ctx_from_handle h \<noteq> 0 \<and> encoded \<noteq> 0 \<and> pcmOut \<noteq> 0 \<and>
           heap w (ctx_from_handle h) = Some (OpusCtxBlk c) \<and>
           heap w (dec c) = Some (OpusDecoder st) \<and>
           arrays w encoded = Some (ByteArray bs) \<and>
           arrays w pcmOut = Some (ShortArray old) \<and>
           opus_decode_fn L st bs (of_nat (length bs)) mfpc 0 = Some (r, st', xs) \<and>
           length xs \<le> length old \<and>
           w' = w\<lparr>heap := (heap w)(dec c \<mapsto> OpusDecoder st'),
                  arrays := (arrays w)(pcmOut \<mapsto> ShortArray (overlay xs old)),
                  calls := calls w @
                    [Ev_GetArrayLength encoded (of_nat (length bs)),
                     Ev_GetByteArrayElements encoded,
                     Ev_GetShortArrayElements pcmOut,
                     Ev_opus_decode (dec c) (of_nat (length bs)) mfpc 0 r,
                     Ev_ReleaseByteArrayElements encoded JNI_ABORT,
                     Ev_ReleaseShortArrayElements pcmOut 0]\<rparr>"
proof -
  from assms obtain encLen w1 encBuf w2 pcmBuf w3 c pcmBuf' w4 where
    s1: "GetArrayLength encoded w = Some (encLen, w1)" and
    s2: "GetByteArrayElements R encoded w1 = Some (encBuf, w2)" and
    s3: "GetShortArrayElements R pcmOut w2 = Some (pcmBuf, w3)" and
    s4: "load_OpusCtx (ctx_from_handle h) w3 = Some c" and
    s5: "opus_decode L (dec c) encBuf encLen pcmBuf mfpc 0 w3 = Some (r, pcmBuf', w4)" and
    s6: "w' = ReleaseShortArrayElements pcmOut pcmBuf' 0 (ReleaseByteArrayElements encoded encBuf JNI_ABORT w4)"
    unfolding nDecode_opus_def
    by (auto simp: Let_def split: Option.bind_splits)
  note i1 = GetArrayLength_inv[OF s1] and i2 = GetByteArrayElements_inv[OF s2]
    and i3 = GetShortArrayElements_inv[OF s3] and i4 = load_OpusCtx_inv[OF s4]
  from opus_decode_inv[OF s5] obtain st st' xs w5 where
    e1: "heap w3 (dec c) = Some (OpusDecoder st)" and
    e2: "opus_decode_fn L st (v_buf encBuf) encLen mfpc 0 = Some (r, st', xs)" and
    e3: "write_shorts pcmBuf xs w3 = Some (pcmBuf', w5)" and
    e4: "w4 = w5\<lparr>heap := (heap w5)(dec c \<mapsto> OpusDecoder st'),
                  calls := calls w5 @ [Ev_opus_decode (dec c) encLen mfpc 0 r]\<rparr>"
    by blast
  note i5 = write_shorts_inv[OF e3]
  from i1 i2 i3 obtain bs old where
    a1: "arrays w encoded = Some (ByteArray bs)" and a2: "arrays w pcmOut = Some (ShortArray old)"
    and v1: "encBuf = \<lparr>v_array = encoded, v_copy = is_copy R encoded, v_buf = bs\<rparr>"
    and v2: "pcmBuf = \<lparr>v_array = pcmOut, v_copy = is_copy R pcmOut, v_buf = old\<rparr>"
    and n: "encLen = of_nat (length bs)"
    by auto
  have ne: "encoded \<noteq> pcmOut" using a1 a2 by auto
  show ?thesis
    apply (rule exI[of _ c], rule exI[of _ st], rule exI[of _ st'], rule exI[of _ bs],
           rule exI[of _ old], rule exI[of _ xs])
    using i1 i2 i3 i4 i5 e1 e2 e4 a1 a2 v1 v2 n ne s6
    by (auto simp: release_defs)
qed

lemma nEncode_codec2_inv:
  assumes "nEncode_codec2 L R h pcm out w = Some (r, w')"
  shows "\<exists>c st st' xs old bs.
           ctx_from_handle h \<noteq> 0 \<and> pcm \<noteq> 0 \<and> out \<noteq> 0 \<and>
           heap w (ctx_from_handle h) = Some (Codec2CtxBlk c) \<and>
           heap w (c2 c) = Some (CODEC2 st) \<and>
           arrays w pcm = Some (ShortArray xs) \<and>
           arrays w out = Some (ByteArray old) \<and>
           codec2_encode_fn L st xs = Some (st', bs) \<and>
           length bs \<le> length old \<and> r = nbyte c \<and>
           w' = w\<lparr>heap := (heap w)(c2 c \<mapsto> CODEC2 st'),
                  arrays := (arrays w)(out \<mapsto> ByteArray (overlay bs old)),
                  calls := calls w @
                    [Ev_GetShortArrayElements pcm,
                     Ev_GetByteArrayElements out,
                     Ev_codec2_encode (c2 c),
                     Ev_ReleaseShortArrayElements pcm JNI_ABORT,
                     Ev_ReleaseByteArrayElements out 0]\<rparr>"
proof -
  from assms obtain pcmBuf w1 outBuf w2 c outBuf' w3 c' where
    s2: "GetShortArrayElements R pcm w = Some (pcmBuf, w1)" and
    s3: "GetByteArrayElements R out w1 = Some (outBuf, w2)" and
    s4: "load_Codec2Ctx (ctx_from_handle h) w2 = Some c" and
    s5: "codec2_encode L (c2 c) outBuf pcmBuf w2 = Some (outBuf', w3)" and
    s6: "w' = ReleaseByteArrayElements out outBuf' 0 (ReleaseShortArrayElements pcm pcmBuf JNI_ABORT w3)" and
    s7: "load_Codec2Ctx (ctx_from_handle h) w' = Some c'" and s8: "r = nbyte c'"
    unfolding nEncode_codec2_def
    by (auto simp: Let_def split: Option.bind_splits)
  note i2 = GetShortArrayElements_inv[OF s2]
    and i3 = GetByteArrayElements_inv[OF s3] and i4 = load_Codec2Ctx_inv[OF s4]
    and i7 = load_Codec2Ctx_inv[OF s7]
  from codec2_encode_inv[OF s5] obtain st st' bs w5 where
    e1: "heap w2 (c2 c) = Some (CODEC2 st)" and
    e2: "codec2_encode_fn L st (v_buf pcmBuf) = Some (st', bs)" and
    e3: "write_bytes outBuf bs w2 = Some (outBuf', w5)" and
    e4: "w3 = w5\<lparr>heap := (heap w5)(c2 c \<mapsto> CODEC2 st'),
                  calls := calls w5 @ [Ev_codec2_encode (c2 c)]\<rparr>"
    by blast
  note i5 = write_bytes_inv[OF e3]
  from i2 i3 obtain xs old where
    a1: "arrays w pcm = Some (ShortArray xs)" and a2: "arrays w out = Some (ByteArray old)"
    and v1: "pcmBuf = \<lparr>v_array = pcm, v_copy = is_copy R pcm, v_buf = xs\<rparr>"
    and v2: "outBuf = \<lparr>v_array = out, v_copy = is_copy R out, v_buf = old\<rparr>"
    by auto
  have ne: "pcm \<noteq> out" using a1 a2 by auto
  have hc: "heap w (ctx_from_handle h) = Some (Codec2CtxBlk c)" and hl: "heap w (c2 c) = Some (CODEC2 st)"
    using i4 e1 i2 i3 by auto
  have nc: "c2 c \<noteq> ctx_from_handle h" using hc hl by auto
  have cc: "c' = c"
    using i7 s6 e4 i5 hc nc i2 i3 v2 by (auto simp: release_defs split: if_splits)
  show ?thesis
    apply (rule exI[of _ c], rule exI[of _ st], rule exI[of _ st'], rule exI[of _ xs],
           rule exI[of _ old], rule exI[of _ bs])
    using i2 i3 i4 i5 e1 e2 e4 a1 a2 v1 v2 ne s6 s8 cc
    by (auto simp: release_defs)
qed

lemma nDecode_codec2_inv:
  assumes "nDecode_codec2 L R h encoded pcmOut w = Some (r, w')"
  shows "\<exists>c st st' bs old xs.
           ctx_from_handle h \<noteq> 0 \<and> encoded \<noteq> 0 \<and> pcmOut \<noteq> 0 \<and>
           heap w (ctx_from_handle h) = Some (Codec2CtxBlk c) \<and>
           heap w (c2 c) = Some (CODEC2 st) \<and>
           arrays w encoded = Some (ByteArray bs) \<and>
           arrays w pcmOut = Some (ShortArray old) \<and>
           codec2_decode_fn L st bs = Some (st', xs) \<and>
           length xs \<le> length old \<and> r = nsam c \<and>
           w' = w\<lparr>heap := (heap w)(c2 c \<mapsto> CODEC2 st'),
                  arrays := (arrays w)(pcmOut \<mapsto> ShortArray (overlay xs old)),
                  calls := calls w @
                    [Ev_GetByteArrayElements encoded,
                     Ev_GetShortArrayElements pcmOut,
                     Ev_codec2_decode (c2 c),
                     Ev_ReleaseByteArrayElements encoded JNI_ABORT,
                     Ev_ReleaseShortArrayElements pcmOut 0]\<rparr>"
proof -
  from assms obtain encBuf w1 pcmBuf w2 c pcmBuf' w3 c' where
    s2: "GetByteArrayElements R encoded w = Some (encBuf, w1)" and
    s3: "GetShortArrayElements R pcmOut w1 = Some (pcmBuf, w2)" and
    s4: "load_Codec2Ctx (ctx_from_handle h) w2 = Some c" and
    s5: "codec2_decode L (c2 c) pcmBuf encBuf w2 = Some (pcmBuf', w3)" and
    s6: "w' = ReleaseShortArrayElements pcmOut pcmBuf' 0 (ReleaseByteArrayElements encoded encBuf JNI_ABORT w3)" and
    s7: "load_Codec2Ctx (ctx_from_handle h) w' = Some c'" and s8: "r = nsam c'"
    unfolding nDecode_codec2_def
    by (auto simp: Let_def split: Option.bind_splits)
  note i2 = GetByteArrayElements_inv[OF s2]
    and i3 = GetShortArrayElements_inv[OF s3] and i4 = load_Codec2Ctx_inv[OF s4]
    and i7 = load_Codec2Ctx_inv[OF s7]
  from codec2_decode_inv[OF s5] obtain st st' xs w5 where
    e1: "heap w2 (c2 c) = Some (CODEC2 st)" and
    e2: "codec2_decode_fn L st (v_buf encBuf) = Some (st', xs)" and
    e3: "write_shorts pcmBuf xs w2 = Some (pcmBuf', w5)" and
    e4: "w3 = w5\<lparr>heap := (heap w5)(c2 c \<mapsto> CODEC2 st'),
                  calls := calls w5 @ [Ev_codec2_decode (c2 c)]\<rparr>"
    by blast
  note i5 = write_shorts_inv[OF e3]
  from i2 i3 obtain bs old where
    a1: "arrays w encoded = Some (ByteArray bs)" and a2: "arrays w pcmOut = Some (ShortArray old)"
    and v1: "encBuf = \<lparr>v_array = encoded, v_copy = is_copy R encoded, v_buf = bs\<rparr>"
    and v2: "pcmBuf = \<lparr>v_array = pcmOut, v_copy = is_copy R pcmOut, v_buf = old\<rparr>"
    by auto
  have ne: "encoded \<noteq> pcmOut" using a1 a2 by auto
  have hc: "heap w (ctx_from_handle h) = Some (Codec2CtxBlk c)" and hl: "heap w (c2 c) = Some (CODEC2 st)"
    using i4 e1 i2 i3 by auto
  have nc: "c2 c \<noteq> ctx_from_handle h" using hc hl by auto
  have cc: "c' = c"
    using i7 s6 e4 i5 hc nc i2 i3 v2 by (auto simp: release_defs split: if_splits)
  show ?thesis
    apply (rule exI[of _ c], rule exI[of _ st], rule exI[of _ st'], rule exI[of _ bs],
           rule exI[of _ old], rule exI[of _ xs])
    using i2 i3 i4 i5 e1 e2 e4 a1 a2 v1 v2 ne s6 s8 cc
    by (auto simp: release_defs)
qed


lemma nEncode_codec2_defined:
  assumes "ctx_from_handle h \<noteq> 0" "pcm \<noteq> 0" "out \<noteq> 0"
    "heap w (ctx_from_handle h) = Some (Codec2CtxBlk c)" "heap w (c2 c) = Some (CODEC2 st)"
    "arrays w pcm = Some (ShortArray xs)" "arrays w out = Some (ByteArray old)"
    "codec2_encode_fn L st xs = Some (st', bs)" "length bs \<le> length old"
  shows "\<exists>w'. nEncode_codec2 L R h pcm out w = Some (nbyte c, w')"
proof -
  have ne: "c2 c \<noteq> ctx_from_handle h" "pcm \<noteq> out" using assms by auto
  show ?thesis
    using assms ne
    by (simp add: nEncode_codec2_def GetShortArrayElements_def GetByteArrayElements_def
          load_Codec2Ctx_def codec2_encode_def write_bytes_def store_def release_defs Let_def)
qed

lemma nDecode_codec2_defined:
  assumes "ctx_from_handle h \<noteq> 0" "encoded \<noteq> 0" "pcmOut \<noteq> 0"
    "heap w (ctx_from_handle h) = Some (Codec2CtxBlk c)" "heap w (c2 c) = Some (CODEC2 st)"
    "arrays w encoded = Some (ByteArray bs)" "arrays w pcmOut = Some (ShortArray old)"
    "codec2_decode_fn L st bs = Some (st', xs)" "length xs \<le> length old"
  shows "\<exists>w'. nDecode_codec2 L R h encoded pcmOut w = Some (nsam c, w')"
proof -
  have ne: "c2 c \<noteq> ctx_from_handle h" "encoded \<noteq> pcmOut" using assms by auto
  show ?thesis
    using assms ne
    by (simp add: nDecode_codec2_def GetShortArrayElements_def GetByteArrayElements_def
          load_Codec2Ctx_def codec2_decode_def write_shorts_def store_def release_defs Let_def)
qed

lemma nEncode_opus_defined:
  assumes "ctx_from_handle h \<noteq> 0" "pcm \<noteq> 0" "out \<noteq> 0"
    "heap w (ctx_from_handle h) = Some (OpusCtxBlk c)" "heap w (enc c) = Some (OpusEncoder st)"
    "arrays w pcm = Some (ShortArray xs)" "arrays w out = Some (ByteArray old)"
    "opus_encode_fn L st xs fpc (of_nat (length old)) = Some (r, st', bs)" "length bs \<le> length old"
  shows "\<exists>w'. nEncode_opus L R h pcm fpc out w = Some (r, w')"
proof -
  have ne: "pcm \<noteq> out" using assms by auto
  show ?thesis
    using assms ne
    by (simp add: nEncode_opus_def GetArrayLength_def GetShortArrayElements_def GetByteArrayElements_def
          load_OpusCtx_def opus_encode_def write_bytes_def store_def release_defs Let_def)
qed

lemma nDecode_opus_defined:
  assumes "ctx_from_handle h \<noteq> 0" "encoded \<noteq> 0" "pcmOut \<noteq> 0"
    "heap w (ctx_from_handle h) = Some (OpusCtxBlk c)" "heap w (dec c) = Some (OpusDecoder st)"
    "arrays w encoded = Some (ByteArray bs)" "arrays w pcmOut = Some (ShortArray old)"
    "opus_decode_fn L st bs (of_nat (length bs)) mfpc 0 = Some (r, st', xs)" "length xs \<le> length old"
  shows "\<exists>w'. nDecode_opus L R h encoded pcmOut mfpc w = Some (r, w')"
proof -
  have ne: "encoded \<noteq> pcmOut" using assms by auto
  show ?thesis
    using assms ne
    by (simp add: nDecode_opus_def GetArrayLength_def GetShortArrayElements_def GetByteArrayElements_def
          load_OpusCtx_def opus_decode_def write_shorts_def store_def release_defs Let_def)
qed


lemma new_calls_append: "calls w' = calls w @ cs \<Longrightarrow> new_calls w w' = cs"
  by (simp add: new_calls_def)

lemma nEncode_opus_io:
  assumes "nEncode_opus L R h pcm fpc out w = Some (r, w')"
  shows "io_discipline w w' pcm out \<and>
         (\<exists>c st st' xs old bs. arrays w pcm = Some (ShortArray xs) \<and>
            arrays w out = Some (ByteArray old) \<and>
            heap w (ctx_from_handle h) = Some (OpusCtxBlk c) \<and>
            heap w (enc c) = Some (OpusEncoder st) \<and>
            opus_encode_fn L st xs fpc (of_nat (length old)) = Some (r, st', bs) \<and>
            arrays w' out = Some (ByteArray (overlay bs old)))"
proof -
  from nEncode_opus_inv[OF assms] obtain c st st' xs old bs where
    f: "arrays w pcm = Some (ShortArray xs)" "arrays w out = Some (ByteArray old)"
       "heap w (ctx_from_handle h) = Some (OpusCtxBlk c)" "heap w (enc c) = Some (OpusEncoder st)"
       "opus_encode_fn L st xs fpc (of_nat (length old)) = Some (r, st', bs)"
    and w': "w' = w\<lparr>heap := (heap w)(enc c \<mapsto> OpusEncoder st'),
                  arrays := (arrays w)(out \<mapsto> ByteArray (overlay bs old)),
                  calls := calls w @
                    [Ev_GetArrayLength out (of_nat (length old)),
                     Ev_GetShortArrayElements pcm,
                     Ev_GetByteArrayElements out,
                     Ev_opus_encode (enc c) fpc (of_nat (length old)) r,
                     Ev_ReleaseShortArrayElements pcm JNI_ABORT,
                     Ev_ReleaseByteArrayElements out 0]\<rparr>"
    by blast
  have ne: "pcm \<noteq> out" using f by auto
  have io: "io_discipline w w' pcm out"
    unfolding w' using ne by (simp add: io_discipline_def new_calls_def acquires_def releases_def)
  have o: "arrays w' out = Some (ByteArray (overlay bs old))" unfolding w' by simp
  show ?thesis using io f o by blast
qed


lemma nDecode_opus_io:
  assumes "nDecode_opus L R h encoded pcmOut mfpc w = Some (r, w')"
  shows "io_discipline w w' encoded pcmOut \<and>
         (\<exists>c st st' xs old bs. arrays w encoded = Some (ByteArray xs) \<and>
            arrays w pcmOut = Some (ShortArray old) \<and>
            heap w (ctx_from_handle h) = Some (OpusCtxBlk c) \<and>
            heap w (dec c) = Some (OpusDecoder st) \<and>
            opus_decode_fn L st xs (of_nat (length xs)) mfpc 0 = Some (r, st', bs) \<and>
            arrays w' pcmOut = Some (ShortArray (overlay bs old)))"
proof -
  from nDecode_opus_inv[OF assms] obtain c st st' xs old bs where
    f: "arrays w encoded = Some (ByteArray xs)" "arrays w pcmOut = Some (ShortArray old)"
       "heap w (ctx_from_handle h) = Some (OpusCtxBlk c)" "heap w (dec c) = Some (OpusDecoder st)"
       "opus_decode_fn L st xs (of_nat (length xs)) mfpc 0 = Some (r, st', bs)"
    and w': "w' = w\<lparr>heap := (heap w)(dec c \<mapsto> OpusDecoder st'),
                  arrays := (arrays w)(pcmOut \<mapsto> ShortArray (overlay bs old)),
                  calls := calls w @
                    [Ev_GetArrayLength encoded (of_nat (length xs)),
                     Ev_GetByteArrayElements encoded,
                     Ev_GetShortArrayElements pcmOut,
                     Ev_opus_decode (dec c) (of_nat (length xs)) mfpc 0 r,
                     Ev_ReleaseByteArrayElements encoded JNI_ABORT,
                     Ev_ReleaseShortArrayElements pcmOut 0]\<rparr>"
    by blast
  have ne: "encoded \<noteq> pcmOut" using f by auto
  have io: "io_discipline w w' encoded pcmOut"
    unfolding w' using ne by (simp add: io_discipline_def new_calls_def acquires_def releases_def)
  have o: "arrays w' pcmOut = Some (ShortArray (overlay bs old))" unfolding w' by simp
  show ?thesis using io f o by blast
qed

lemma nEncode_codec2_io:
  assumes "nEncode_codec2 L R h pcm out w = Some (r, w')"
  shows "io_discipline w w' pcm out \<and>
         (\<exists>c st st' xs old bs. arrays w pcm = Some (ShortArray xs) \<and>
            arrays w out = Some (ByteArray old) \<and>
            heap w (ctx_from_handle h) = Some (Codec2CtxBlk c) \<and>
            heap w (c2 c) = Some (CODEC2 st) \<and>
            codec2_encode_fn L st xs = Some (st', bs) \<and>
            arrays w' out = Some (ByteArray (overlay bs old)))"
proof -
  from nEncode_codec2_inv[OF assms] obtain c st st' xs old bs where
    f: "arrays w pcm = Some (ShortArray xs)" "arrays w out = Some (ByteArray old)"
       "heap w (ctx_from_handle h) = Some (Codec2CtxBlk c)" "heap w (c2 c) = Some (CODEC2 st)"
       "codec2_encode_fn L st xs = Some (st', bs)"
    and w': "w' = w\<lparr>heap := (heap w)(c2 c \<mapsto> CODEC2 st'),
                  arrays := (arrays w)(out \<mapsto> ByteArray (overlay bs old)),
                  calls := calls w @
                    [Ev_GetShortArrayElements pcm,
                     Ev_GetByteArrayElements out,
                     Ev_codec2_encode (c2 c),
                     Ev_ReleaseShortArrayElements pcm JNI_ABORT,
                     Ev_ReleaseByteArrayElements out 0]\<rparr>"
    by blast
  have ne: "pcm \<noteq> out" using f by auto
  have io: "io_discipline w w' pcm out"
    unfolding w' using ne by (simp add: io_discipline_def new_calls_def acquires_def releases_def)
  have o: "arrays w' out = Some (ByteArray (overlay bs old))" unfolding w' by simp
  show ?thesis using io f o by blast
qed

lemma nDecode_codec2_io:
  assumes "nDecode_codec2 L R h encoded pcmOut w = Some (r, w')"
  shows "io_discipline w w' encoded pcmOut \<and>
         (\<exists>c st st' xs old bs. arrays w encoded = Some (ByteArray xs) \<and>
            arrays w pcmOut = Some (ShortArray old) \<and>
            heap w (ctx_from_handle h) = Some (Codec2CtxBlk c) \<and>
            heap w (c2 c) = Some (CODEC2 st) \<and>
            codec2_decode_fn L st xs = Some (st', bs) \<and>
            arrays w' pcmOut = Some (ShortArray (overlay bs old)))"
proof -
  from nDecode_codec2_inv[OF assms] obtain c st st' xs old bs where
    f: "arrays w encoded = Some (ByteArray xs)" "arrays w pcmOut = Some (ShortArray old)"
       "heap w (ctx_from_handle h) = Some (Codec2CtxBlk c)" "heap w (c2 c) = Some (CODEC2 st)"
       "codec2_decode_fn L st xs = Some (st', bs)"
    and w': "w' = w\<lparr>heap := (heap w)(c2 c \<mapsto> CODEC2 st'),
                  arrays := (arrays w)(pcmOut \<mapsto> ShortArray (overlay bs old)),
                  calls := calls w @
                    [Ev_GetByteArrayElements encoded,
                     Ev_GetShortArrayElements pcmOut,
                     Ev_codec2_decode (c2 c),
                     Ev_ReleaseByteArrayElements encoded JNI_ABORT,
                     Ev_ReleaseShortArrayElements pcmOut 0]\<rparr>"
    by blast
  have ne: "encoded \<noteq> pcmOut" using f by auto
  have io: "io_discipline w w' encoded pcmOut"
    unfolding w' using ne by (simp add: io_discipline_def new_calls_def acquires_def releases_def)
  have o: "arrays w' pcmOut = Some (ShortArray (overlay bs old))" unfolding w' by simp
  show ?thesis using io f o by blast
qed

lemma c2_step_preserves:
  assumes "c2_step L R c w = Some w'"
  shows "(\<forall>q b. heap w q = Some (Codec2CtxBlk b) \<longrightarrow> heap w' q = Some (Codec2CtxBlk b)) \<and>
         (\<exists>cs. calls w' = calls w @ cs \<and> geometry_queries cs = [])"
proof (cases c)
  case (Call_encode h pcm out)
  with assms obtain r where run: "nEncode_codec2 L R h pcm out w = Some (r, w')" by auto
  from nEncode_codec2_inv[OF run] obtain b :: Codec2Ctx and st st' xs old bs where
    l: "heap w (c2 b) = Some (CODEC2 st)"
    and w': "w' = w\<lparr>heap := (heap w)(c2 b \<mapsto> CODEC2 st'),
                  arrays := (arrays w)(out \<mapsto> ByteArray (overlay bs old)),
                  calls := calls w @
                    [Ev_GetShortArrayElements pcm,
                     Ev_GetByteArrayElements out,
                     Ev_codec2_encode (c2 b),
                     Ev_ReleaseShortArrayElements pcm JNI_ABORT,
                     Ev_ReleaseByteArrayElements out 0]\<rparr>"
    by blast
  show ?thesis unfolding w' using l by (auto simp: geometry_queries_def)
next
  case (Call_decode h encoded pcmOut)
  with assms obtain r where run: "nDecode_codec2 L R h encoded pcmOut w = Some (r, w')" by auto
  from nDecode_codec2_inv[OF run] obtain b :: Codec2Ctx and st st' bs old xs where
    l: "heap w (c2 b) = Some (CODEC2 st)"
    and w': "w' = w\<lparr>heap := (heap w)(c2 b \<mapsto> CODEC2 st'),
                  arrays := (arrays w)(pcmOut \<mapsto> ShortArray (overlay xs old)),
                  calls := calls w @
                    [Ev_GetByteArrayElements encoded,
                     Ev_GetShortArrayElements pcmOut,
                     Ev_codec2_decode (c2 b),
                     Ev_ReleaseByteArrayElements encoded JNI_ABORT,
                     Ev_ReleaseShortArrayElements pcmOut 0]\<rparr>"
    by blast
  show ?thesis unfolding w' using l by (auto simp: geometry_queries_def)
next
  case (Call_getSamplesPerFrame h)
  with assms have "w' = w" by auto
  then show ?thesis by (simp add: geometry_queries_def)
next
  case (Call_getFrameBytes h)
  with assms have "w' = w" by auto
  then show ?thesis by (simp add: geometry_queries_def)
qed

lemma c2_run_preserves:
  "c2_run L R ops w = Some w' \<Longrightarrow>
     (\<forall>q b. heap w q = Some (Codec2CtxBlk b) \<longrightarrow> heap w' q = Some (Codec2CtxBlk b)) \<and>
     (\<exists>cs. calls w' = calls w @ cs \<and> geometry_queries cs = [])"
proof (induction ops arbitrary: w)
  case Nil
  then show ?case by (simp add: geometry_queries_def)
next
  case (Cons c ops)
  from Cons.prems obtain v where s: "c2_step L R c w = Some v" and r: "c2_run L R ops v = Some w'"
    by (auto split: Option.bind_splits)
  from c2_step_preserves[OF s] obtain cs1 where
    h1: "\<forall>q b. heap w q = Some (Codec2CtxBlk b) \<longrightarrow> heap v q = Some (Codec2CtxBlk b)"
    and c1: "calls v = calls w @ cs1" "geometry_queries cs1 = []" by blast
  from Cons.IH[OF r] obtain cs2 where
    h2: "\<forall>q b. heap v q = Some (Codec2CtxBlk b) \<longrightarrow> heap w' q = Some (Codec2CtxBlk b)"
    and c2: "calls w' = calls v @ cs2" "geometry_queries cs2 = []" by blast
  have "calls w' = calls w @ (cs1 @ cs2) \<and> geometry_queries (cs1 @ cs2) = []"
    using c1 c2 by (simp add: geometry_queries_def)
  then show ?case using h1 h2 by blast
qed

lemmas eval_defs =
  nCreate_codec2_def nEncode_codec2_def nDecode_codec2_def nGetSamplesPerFrame_def
  nGetFrameBytes_def codec2_create_def codec2_samples_per_frame_def codec2_bytes_per_frame_def
  codec2_encode_def codec2_decode_def load_Codec2Ctx_def
  GetByteArrayElements_def GetShortArrayElements_def write_bytes_def write_shorts_def
  overlay_def alloc_def malloc_def store_def release_defs
  handle_of_ptr_def ctx_from_handle_def

lemma nEncode_opus_runs:
  assumes "ctx_from_handle h \<noteq> 0" "pcm \<noteq> 0" "out \<noteq> 0"
    "heap w (ctx_from_handle h) = Some (OpusCtxBlk c)" "heap w (enc c) = Some (OpusEncoder st)"
    "arrays w pcm = Some (ShortArray xs)" "arrays w out = Some (ByteArray old)"
    "opus_encode_fn L st xs fpc (of_nat (length old)) = Some (r, st', bs)" "length bs \<le> length old"
  shows "\<exists>v. nEncode_opus L R h pcm fpc out w = Some (r, v) \<and> io_discipline w v pcm out \<and>
           arrays v pcm = Some (ShortArray xs) \<and>
           arrays v out = Some (ByteArray (overlay bs old))"
proof -
  from nEncode_opus_defined[OF assms] obtain v where
    run: "nEncode_opus L R h pcm fpc out w = Some (r, v)" by blast
  from nEncode_opus_io[OF run] obtain c' st2 st2' xs' old' bs' where
    io: "io_discipline w v pcm out"
    and f: "arrays w pcm = Some (ShortArray xs')" "arrays w out = Some (ByteArray old')"
       "heap w (ctx_from_handle h) = Some (OpusCtxBlk c')" "heap w (enc c') = Some (OpusEncoder st2)"
       "opus_encode_fn L st2 xs' fpc (of_nat (length old')) = Some (r, st2', bs')"
       "arrays v out = Some (ByteArray (overlay bs' old'))"
    by blast
  have e: "xs' = xs" "old' = old" "c' = c" using f(1,2,3) assms(4,6,7) by simp_all
  have s: "st2 = st" using f(4) assms(5) unfolding e by simp
  have b: "bs' = bs" using f(5) assms(8) unfolding e s by simp
  have i: "arrays v pcm = Some (ShortArray xs)"
    using io assms(6) by (simp add: io_discipline_def)
  show ?thesis using run io i f(6) unfolding e b by blast
qed

lemma nDecode_opus_runs:
  assumes "ctx_from_handle h \<noteq> 0" "encoded \<noteq> 0" "pcmOut \<noteq> 0"
    "heap w (ctx_from_handle h) = Some (OpusCtxBlk c)" "heap w (dec c) = Some (OpusDecoder st)"
    "arrays w encoded = Some (ByteArray xs)" "arrays w pcmOut = Some (ShortArray old)"
    "opus_decode_fn L st xs (of_nat (length xs)) mfpc 0 = Some (r, st', bs)" "length bs \<le> length old"
  shows "\<exists>v. nDecode_opus L R h encoded pcmOut mfpc w = Some (r, v) \<and> io_discipline w v encoded pcmOut \<and>
           arrays v encoded = Some (ByteArray xs) \<and>
           arrays v pcmOut = Some (ShortArray (overlay bs old))"
proof -
  from nDecode_opus_defined[OF assms] obtain v where
    run: "nDecode_opus L R h encoded pcmOut mfpc w = Some (r, v)" by blast
  from nDecode_opus_io[OF run] obtain c' st2 st2' xs' old' bs' where
    io: "io_discipline w v encoded pcmOut"
    and f: "arrays w encoded = Some (ByteArray xs')" "arrays w pcmOut = Some (ShortArray old')"
       "heap w (ctx_from_handle h) = Some (OpusCtxBlk c')" "heap w (dec c') = Some (OpusDecoder st2)"
       "opus_decode_fn L st2 xs' (of_nat (length xs')) mfpc 0 = Some (r, st2', bs')"
       "arrays v pcmOut = Some (ShortArray (overlay bs' old'))"
    by blast
  have e: "xs' = xs" "old' = old" "c' = c" using f(1,2,3) assms(4,6,7) by simp_all
  have s: "st2 = st" using f(4) assms(5) unfolding e by simp
  have b: "bs' = bs" using f(5) assms(8) unfolding e s by simp
  have i: "arrays v encoded = Some (ByteArray xs)"
    using io assms(6) by (simp add: io_discipline_def)
  show ?thesis using run io i f(6) unfolding e b by blast
qed

lemma nEncode_codec2_runs:
  assumes "ctx_from_handle h \<noteq> 0" "pcm \<noteq> 0" "out \<noteq> 0"
    "heap w (ctx_from_handle h) = Some (Codec2CtxBlk c)" "heap w (c2 c) = Some (CODEC2 st)"
    "arrays w pcm = Some (ShortArray xs)" "arrays w out = Some (ByteArray old)"
    "codec2_encode_fn L st xs = Some (st', bs)" "length bs \<le> length old"
  shows "\<exists>v. nEncode_codec2 L R h pcm out w = Some (nbyte c, v) \<and> io_discipline w v pcm out \<and>
           arrays v pcm = Some (ShortArray xs) \<and>
           arrays v out = Some (ByteArray (overlay bs old))"
proof -
  from nEncode_codec2_defined[OF assms] obtain v where
    run: "nEncode_codec2 L R h pcm out w = Some (nbyte c, v)" by blast
  from nEncode_codec2_io[OF run] obtain c' st2 st2' xs' old' bs' where
    io: "io_discipline w v pcm out"
    and f: "arrays w pcm = Some (ShortArray xs')" "arrays w out = Some (ByteArray old')"
       "heap w (ctx_from_handle h) = Some (Codec2CtxBlk c')" "heap w (c2 c') = Some (CODEC2 st2)"
       "codec2_encode_fn L st2 xs' = Some (st2', bs')"
       "arrays v out = Some (ByteArray (overlay bs' old'))"
    by blast
  have e: "xs' = xs" "old' = old" "c' = c" using f(1,2,3) assms(4,6,7) by simp_all
  have s: "st2 = st" using f(4) assms(5) unfolding e by simp
  have b: "bs' = bs" using f(5) assms(8) unfolding e s by simp
  have i: "arrays v pcm = Some (ShortArray xs)"
    using io assms(6) by (simp add: io_discipline_def)
  show ?thesis using run io i f(6) unfolding e b by blast
qed

lemma nDecode_codec2_runs:
  assumes "ctx_from_handle h \<noteq> 0" "encoded \<noteq> 0" "pcmOut \<noteq> 0"
    "heap w (ctx_from_handle h) = Some (Codec2CtxBlk c)" "heap w (c2 c) = Some (CODEC2 st)"
    "arrays w encoded = Some (ByteArray xs)" "arrays w pcmOut = Some (ShortArray old)"
    "codec2_decode_fn L st xs = Some (st', bs)" "length bs \<le> length old"
  shows "\<exists>v. nDecode_codec2 L R h encoded pcmOut w = Some (nsam c, v) \<and> io_discipline w v encoded pcmOut \<and>
           arrays v encoded = Some (ByteArray xs) \<and>
           arrays v pcmOut = Some (ShortArray (overlay bs old))"
proof -
  from nDecode_codec2_defined[OF assms] obtain v where
    run: "nDecode_codec2 L R h encoded pcmOut w = Some (nsam c, v)" by blast
  from nDecode_codec2_io[OF run] obtain c' st2 st2' xs' old' bs' where
    io: "io_discipline w v encoded pcmOut"
    and f: "arrays w encoded = Some (ByteArray xs')" "arrays w pcmOut = Some (ShortArray old')"
       "heap w (ctx_from_handle h) = Some (Codec2CtxBlk c')" "heap w (c2 c') = Some (CODEC2 st2)"
       "codec2_decode_fn L st2 xs' = Some (st2', bs')"
       "arrays v pcmOut = Some (ShortArray (overlay bs' old'))"
    by blast
  have e: "xs' = xs" "old' = old" "c' = c" using f(1,2,3) assms(4,6,7) by simp_all
  have s: "st2 = st" using f(4) assms(5) unfolding e by simp
  have b: "bs' = bs" using f(5) assms(8) unfolding e s by simp
  have i: "arrays v encoded = Some (ByteArray xs)"
    using io assms(6) by (simp add: io_discipline_def)
  show ?thesis using run io i f(6) unfolding e b by blast
qed

subsection \<open>The claims\<close>

text \<open>
  C1.  Variable-frame \<open>create\<close>, for every argument tuple and every world: the call
  returns; if any initialisation step failed (encoder construction, decoder
  construction, or \<open>malloc\<close> of the context) it returns the zero handle and the native
  heap is what it was before the call, so everything the call had built is released;
  a non-zero handle always denotes a context whose encoder and decoder both exist.
  The engine is assumed to keep its documented contract that a constructor reporting
  an error returns \<open>NULL\<close>.
\<close>
theorem nCreate_opus_failure_releases_all:
  assumes "fst (opus_encoder_create_fn L sr ch app) \<noteq> OPUS_OK \<longrightarrow>
             snd (opus_encoder_create_fn L sr ch app) = None"
      and "fst (opus_decoder_create_fn L sr ch) \<noteq> OPUS_OK \<longrightarrow>
             snd (opus_decoder_create_fn L sr ch) = None"
  shows "\<exists>h w'. nCreate_opus L sr ch app br cx w = Some (h, w') \<and>
           ((\<exists>c\<in>set (new_calls w w'). init_step_failed c) \<longrightarrow> h = 0) \<and>
           (h = 0 \<longrightarrow> heap w' = heap w \<and> arrays w' = arrays w) \<and>
           (h \<noteq> 0 \<longrightarrow>
              (\<exists>c s1 s2. load_OpusCtx (ctx_from_handle h) w' = Some c \<and>
                 heap w' (enc c) = Some (OpusEncoder s1) \<and>
                 heap w' (dec c) = Some (OpusDecoder s2)))"
proof -
  from nCreate_opus_spec[of L sr ch app br cx w] obtain h w' where
    r: "nCreate_opus L sr ch app br cx w = Some (h, w')" and ar: "arrays w' = arrays w"
    and z: "(h = 0) = (\<exists>c\<in>set (new_calls w w'). init_step_failed c)"
    and rel: "h = 0 \<longrightarrow>
        (fst (opus_encoder_create_fn L sr ch app) \<noteq> OPUS_OK \<longrightarrow> snd (opus_encoder_create_fn L sr ch app) = None) \<longrightarrow>
        (fst (opus_decoder_create_fn L sr ch) \<noteq> OPUS_OK \<longrightarrow> snd (opus_decoder_create_fn L sr ch) = None) \<longrightarrow>
        heap w' = heap w"
    and pair: "h \<noteq> 0 \<longrightarrow>
        (\<exists>e d s1 s2. ctx_from_handle h \<noteq> 0 \<and> handle_of_ptr (ctx_from_handle h) = h \<and>
           e \<noteq> d \<and> e \<noteq> ctx_from_handle h \<and> d \<noteq> ctx_from_handle h \<and>
           heap w e = None \<and> heap w d = None \<and> heap w (ctx_from_handle h) = None \<and>
           heap w' = (heap w)(e \<mapsto> OpusEncoder s1, d \<mapsto> OpusDecoder s2,
                              ctx_from_handle h \<mapsto> OpusCtxBlk \<lparr>enc = e, dec = d\<rparr>))"
    by blast
  have p0: "(\<exists>c\<in>set (new_calls w w'). init_step_failed c) \<longrightarrow> h = 0"
    using z by blast
  have p1: "h = 0 \<longrightarrow> heap w' = heap w \<and> arrays w' = arrays w"
    using rel ar assms by blast
  have p2: "h \<noteq> 0 \<longrightarrow>
              (\<exists>c s1 s2. load_OpusCtx (ctx_from_handle h) w' = Some c \<and>
                 heap w' (enc c) = Some (OpusEncoder s1) \<and>
                 heap w' (dec c) = Some (OpusDecoder s2))"
  proof
    assume "h \<noteq> 0"
    with pair obtain e d s1 s2 where
      f: "ctx_from_handle h \<noteq> 0" "e \<noteq> d" "e \<noteq> ctx_from_handle h" "d \<noteq> ctx_from_handle h"
         "heap w' = (heap w)(e \<mapsto> OpusEncoder s1, d \<mapsto> OpusDecoder s2,
                              ctx_from_handle h \<mapsto> OpusCtxBlk \<lparr>enc = e, dec = d\<rparr>)"
      by blast
    show "\<exists>c s1 s2. load_OpusCtx (ctx_from_handle h) w' = Some c \<and>
                 heap w' (enc c) = Some (OpusEncoder s1) \<and>
                 heap w' (dec c) = Some (OpusDecoder s2)"
      apply (rule exI[of _ "\<lparr>enc = e, dec = d\<rparr>"], rule exI[of _ s1], rule exI[of _ s2])
      using f by (simp add: load_OpusCtx_def)
  qed
  show ?thesis using r p0 p1 p2 by blast
qed

theorem nCreate_opus_failure_releases_all_witness:
  "opus_encoder_create_fn ex_opus 48000 1 2049 = (OPUS_OK, Some 0) \<and>
   opus_decoder_create_fn ex_opus 48000 1 = (OPUS_OK, Some 0) \<and>
   (\<exists>w'. nCreate_opus ex_opus 48000 1 2049 16000 5 (ex_world\<lparr>plan := [16, 32]\<rparr>) = Some (0, w') \<and>
      heap w' = Map.empty \<and>
      calls w' =
        [Ev_opus_encoder_create 48000 1 2049 0 16,
         Ev_opus_encoder_ctl 16 (OPUS_SET_BITRATE 16000) 0,
         Ev_opus_encoder_ctl 16 (OPUS_SET_COMPLEXITY 5) 0,
         Ev_opus_decoder_create 48000 1 0 32, Ev_malloc 0,
         Ev_opus_encoder_destroy 16, Ev_opus_decoder_destroy 32])"
proof -
  let ?w = "ex_world\<lparr>plan := [16, 32]\<rparr>"
  have a: "opus_encoder_create_fn ex_opus 48000 1 2049 = (OPUS_OK, Some 0)"
    and b: "opus_decoder_create_fn ex_opus 48000 1 = (OPUS_OK, Some 0)"
    by (simp_all add: ex_opus_def OPUS_OK_def)
  from nCreate_opus_failure_releases_all[of ex_opus 48000 1 2049 16000 5 ?w] a b
  obtain h w' where
    r: "nCreate_opus ex_opus 48000 1 2049 16000 5 ?w = Some (h, w')"
    and z: "h = 0 \<longrightarrow> heap w' = heap ?w \<and> arrays w' = arrays ?w"
    by auto
  have ev: "map_option (\<lambda>(h, w'). (h, calls w')) (nCreate_opus ex_opus 48000 1 2049 16000 5 ?w) =
      Some (0, [Ev_opus_encoder_create 48000 1 2049 0 16,
         Ev_opus_encoder_ctl 16 (OPUS_SET_BITRATE 16000) 0,
         Ev_opus_encoder_ctl 16 (OPUS_SET_COMPLEXITY 5) 0,
         Ev_opus_decoder_create 48000 1 0 32, Ev_malloc 0,
         Ev_opus_encoder_destroy 16, Ev_opus_decoder_destroy 32])"
    by (simp add: nCreate_opus_def ex_opus_def ex_world_def opus_encoder_create_def
          opus_decoder_create_def opus_encoder_ctl_def opus_encoder_destroy_def
          opus_decoder_destroy_def alloc_def malloc_def store_def log_def
          OPUS_OK_def handle_of_ptr_def)
  with r have h: "h = 0" and c: "calls w' =
        [Ev_opus_encoder_create 48000 1 2049 0 16,
         Ev_opus_encoder_ctl 16 (OPUS_SET_BITRATE 16000) 0,
         Ev_opus_encoder_ctl 16 (OPUS_SET_COMPLEXITY 5) 0,
         Ev_opus_decoder_create 48000 1 0 32, Ev_malloc 0,
         Ev_opus_encoder_destroy 16, Ev_opus_decoder_destroy 32]"
    by simp_all
  have "heap w' = Map.empty" using z h by (simp add: ex_world_def)
  then show ?thesis using a b r h c by simp
qed

text \<open>
  C10.  Variable-frame \<open>create\<close> does not depend on \<open>bitrate\<close> and \<open>complexity\<close>
  for its result: two calls from the same world that agree on \<open>sampleRate\<close>,
  \<open>channels\<close> and \<open>application\<close> both return, and return the same handle, whatever
  the two bitrates and complexities are and whatever \<open>opus_encoder_ctl\<close> answers.
  So one is the zero handle exactly when the other is.
\<close>
theorem nCreate_opus_independent_of_tuning:
  "\<exists>h w1 w2. nCreate_opus L sr ch app br cx w = Some (h, w1) \<and>
              nCreate_opus L sr ch app br' cx' w = Some (h, w2)"
proof -
  obtain encErr e w1 where E: "opus_encoder_create L sr ch app w = ((encErr, e), w1)"
    by (metis surj_pair)
  obtain decErr d w4 where D: "opus_decoder_create L sr ch w1 = ((decErr, d), w4)"
    by (metis surj_pair)
  obtain ctx w5 where M: "malloc w4 = (ctx, w5)"
    by (metis surj_pair)
  from nCreate_opus_spec[of L sr ch app br cx w] obtain h1 v1 where
    r1: "nCreate_opus L sr ch app br cx w = Some (h1, v1)" by blast
  from nCreate_opus_spec[of L sr ch app br' cx' w] obtain h2 v2 where
    r2: "nCreate_opus L sr ch app br' cx' w = Some (h2, v2)" by blast
  have "h1 = h2"
    using nCreate_opus_handle[OF r1 E D M] nCreate_opus_handle[OF r2 E D M] by simp
  then show ?thesis using r1 r2 by blast
qed

theorem nCreate_opus_independent_of_tuning_witness:
  "\<exists>w1 w2. nCreate_opus ex_opus 48000 1 2049 16000 5 ex_world = Some (48, w1) \<and>
            nCreate_opus ex_opus 48000 1 2049 64000 10 ex_world = Some (48, w2)"
proof -
  from nCreate_opus_independent_of_tuning[of ex_opus 48000 1 2049 16000 5 ex_world 64000 10]
  obtain h w1 w2 where
    r: "nCreate_opus ex_opus 48000 1 2049 16000 5 ex_world = Some (h, w1)"
       "nCreate_opus ex_opus 48000 1 2049 64000 10 ex_world = Some (h, w2)"
    by blast
  have "map_option fst (nCreate_opus ex_opus 48000 1 2049 16000 5 ex_world) = Some 48"
    by (simp add: nCreate_opus_def ex_opus_def ex_world_def opus_encoder_create_def
          opus_decoder_create_def opus_encoder_ctl_def alloc_def malloc_def store_def log_def
          OPUS_OK_def handle_of_ptr_def)
  with r(1) have "h = 48" by simp
  with r show ?thesis by blast
qed

text \<open>
  C7.  \<open>destroy\<close> of both adapters: with the zero handle the world is returned as it
  was (no call leaves the bridge, nothing is freed).  With a handle whose context
  and wrapped objects are live, the variable-frame \<open>destroy\<close> destroys the encoder,
  then the decoder, then frees the context; the fixed-frame \<open>destroy\<close> destroys the
  engine, then frees the context; in both cases exactly these blocks leave the heap.
\<close>
theorem nDestroy_zero_noop_live_releases:
  "nDestroy_opus 0 w = Some w \<and> nDestroy_codec2 0 w = Some w \<and>
   (load_OpusCtx (ctx_from_handle h) w = Some oc \<and>
    heap w (enc oc) = Some (OpusEncoder s1) \<and> heap w (dec oc) = Some (OpusDecoder s2) \<longrightarrow>
      (\<exists>w'. nDestroy_opus h w = Some w' \<and>
         heap w' = (heap w)(enc oc := None, dec oc := None, ctx_from_handle h := None) \<and>
         calls w' = calls w @ [Ev_opus_encoder_destroy (enc oc), Ev_opus_decoder_destroy (dec oc),
                               Ev_free (ctx_from_handle h)] \<and>
         arrays w' = arrays w \<and> plan w' = plan w)) \<and>
   (load_Codec2Ctx (ctx_from_handle k) w = Some cc \<and> heap w (c2 cc) = Some (CODEC2 s3) \<longrightarrow>
      (\<exists>w'. nDestroy_codec2 k w = Some w' \<and>
         heap w' = (heap w)(c2 cc := None, ctx_from_handle k := None) \<and>
         calls w' = calls w @ [Ev_codec2_destroy (c2 cc), Ev_free (ctx_from_handle k)] \<and>
         arrays w' = arrays w \<and> plan w' = plan w))"
  using nDestroy_zero[of w] nDestroy_opus_live[of h w oc s1 s2] nDestroy_codec2_live[of k w cc s3]
  by blast

theorem nDestroy_zero_noop_live_releases_witness:
  "load_OpusCtx (ctx_from_handle 48) ex_live = Some \<lparr>enc = 16, dec = 32\<rparr> \<and>
   heap ex_live 16 = Some (OpusEncoder 2) \<and> heap ex_live 32 = Some (OpusDecoder 0) \<and>
   (\<exists>w'. nDestroy_opus 48 ex_live = Some w' \<and>
      heap w' = (heap ex_live)(16 := None, 32 := None, 48 := None) \<and>
      calls w' = [Ev_opus_encoder_destroy 16, Ev_opus_decoder_destroy 32, Ev_free 48]) \<and>
   load_Codec2Ctx (ctx_from_handle 64) ex_live = Some \<lparr>c2 = 80, nsam = 2, nbyte = 1\<rparr> \<and>
   heap ex_live 80 = Some (CODEC2 0) \<and>
   (\<exists>w'. nDestroy_codec2 64 ex_live = Some w' \<and>
      heap w' = (heap ex_live)(80 := None, 64 := None) \<and>
      calls w' = [Ev_codec2_destroy 80, Ev_free 64]) \<and>
   nDestroy_opus 0 ex_live = Some ex_live \<and> nDestroy_codec2 0 ex_live = Some ex_live"
proof -
  have a: "load_OpusCtx (ctx_from_handle 48) ex_live = Some \<lparr>enc = 16, dec = 32\<rparr>"
    "heap ex_live 16 = Some (OpusEncoder 2)" "heap ex_live 32 = Some (OpusDecoder 0)"
    "load_Codec2Ctx (ctx_from_handle 64) ex_live = Some \<lparr>c2 = 80, nsam = 2, nbyte = 1\<rparr>"
    "heap ex_live 80 = Some (CODEC2 0)"
    by (simp_all add: ex_live_def load_OpusCtx_def load_Codec2Ctx_def ctx_from_handle_def)
  have c: "calls ex_live = []" by (simp add: ex_live_def)
  from a nDestroy_zero_noop_live_releases
         [of ex_live 48 "\<lparr>enc = 16, dec = 32\<rparr>" 2 0 64 "\<lparr>c2 = 80, nsam = 2, nbyte = 1\<rparr>" 0]
  show ?thesis by (auto simp: c ctx_from_handle_def)
qed

text \<open>
  C8.  \<open>create\<close> of either adapter, from any world: the call returns; the handle is
  zero exactly when an initialisation step failed; a non-zero handle denotes a
  context block at an address that was free before the call, so it differs, as a
  handle and as a context, from every handle that was live before the call, and all
  of those stay live and keep their contexts.
\<close>
theorem create_handles_nonzero_fresh_distinct:
  "(\<exists>h w'. nCreate_opus L sr ch app br cx w = Some (h, w') \<and>
      ((h = 0) = (\<exists>c\<in>set (new_calls w w'). init_step_failed c)) \<and>
      (h \<noteq> 0 \<longrightarrow> live_handle w' h \<and> heap w (ctx_from_handle h) = None) \<and>
      (\<forall>k. live_handle w k \<longrightarrow>
         live_handle w' k \<and> heap w' (ctx_from_handle k) = heap w (ctx_from_handle k) \<and>
         (h \<noteq> 0 \<longrightarrow> k \<noteq> h \<and> ctx_from_handle k \<noteq> ctx_from_handle h))) \<and>
   (\<exists>h w'. nCreate_codec2 L2 mode w = Some (h, w') \<and>
      ((h = 0) = (\<exists>c\<in>set (new_calls w w'). init_step_failed c)) \<and>
      (h \<noteq> 0 \<longrightarrow> live_handle w' h \<and> heap w (ctx_from_handle h) = None) \<and>
      (\<forall>k. live_handle w k \<longrightarrow>
         live_handle w' k \<and> heap w' (ctx_from_handle k) = heap w (ctx_from_handle k) \<and>
         (h \<noteq> 0 \<longrightarrow> k \<noteq> h \<and> ctx_from_handle k \<noteq> ctx_from_handle h)))"
proof -
  have gen: "\<And>(h::jlong) (w'::'a world).
      (\<forall>p. heap w p \<noteq> None \<longrightarrow> heap w' p = heap w p) \<Longrightarrow>
      (h \<noteq> 0 \<longrightarrow> live_handle w' h \<and> heap w (ctx_from_handle h) = None) \<Longrightarrow>
      (\<forall>k. live_handle w k \<longrightarrow>
         live_handle w' k \<and> heap w' (ctx_from_handle k) = heap w (ctx_from_handle k) \<and>
         (h \<noteq> 0 \<longrightarrow> k \<noteq> h \<and> ctx_from_handle k \<noteq> ctx_from_handle h))"
  proof (intro allI impI)
    fix h :: jlong and w' :: "'a world" and k
    assume old: "\<forall>p. heap w p \<noteq> None \<longrightarrow> heap w' p = heap w p"
      and fr: "h \<noteq> 0 \<longrightarrow> live_handle w' h \<and> heap w (ctx_from_handle h) = None"
      and lk: "live_handle w k"
    from live_handle_heap[OF lk] old have eq: "heap w' (ctx_from_handle k) = heap w (ctx_from_handle k)"
      by blast
    have l': "live_handle w' k" using lk eq by (simp add: live_handle_def)
    have d: "h \<noteq> 0 \<longrightarrow> k \<noteq> h \<and> ctx_from_handle k \<noteq> ctx_from_handle h"
      using fr live_handle_heap[OF lk] by auto
    show "live_handle w' k \<and> heap w' (ctx_from_handle k) = heap w (ctx_from_handle k) \<and>
         (h \<noteq> 0 \<longrightarrow> k \<noteq> h \<and> ctx_from_handle k \<noteq> ctx_from_handle h)"
      using l' eq d by blast
  qed
  from nCreate_opus_spec[of L sr ch app br cx w] obtain h1 v1 where
    r1: "nCreate_opus L sr ch app br cx w = Some (h1, v1)"
    and o1: "\<forall>p. heap w p \<noteq> None \<longrightarrow> heap v1 p = heap w p"
    and z1: "(h1 = 0) = (\<exists>c\<in>set (new_calls w v1). init_step_failed c)"
    and n1: "h1 \<noteq> 0 \<longrightarrow>
        (\<exists>e d s1 s2. ctx_from_handle h1 \<noteq> 0 \<and> handle_of_ptr (ctx_from_handle h1) = h1 \<and>
           e \<noteq> d \<and> e \<noteq> ctx_from_handle h1 \<and> d \<noteq> ctx_from_handle h1 \<and>
           heap w e = None \<and> heap w d = None \<and> heap w (ctx_from_handle h1) = None \<and>
           heap v1 = (heap w)(e \<mapsto> OpusEncoder s1, d \<mapsto> OpusDecoder s2,
                              ctx_from_handle h1 \<mapsto> OpusCtxBlk \<lparr>enc = e, dec = d\<rparr>))"
    by blast
  have f1: "h1 \<noteq> 0 \<longrightarrow> live_handle v1 h1 \<and> heap w (ctx_from_handle h1) = None"
    using n1 by (auto simp: live_handle_def)
  from nCreate_codec2_spec[of L2 mode w] obtain h2 v2 where
    r2: "nCreate_codec2 L2 mode w = Some (h2, v2)"
    and o2: "\<forall>p. heap w p \<noteq> None \<longrightarrow> heap v2 p = heap w p"
    and z2: "(h2 = 0) = (\<exists>c\<in>set (new_calls w v2). init_step_failed c)"
    and n2: "h2 \<noteq> 0 \<longrightarrow>
        (\<exists>p st. p \<noteq> 0 \<and> p \<noteq> ctx_from_handle h2 \<and>
           heap w p = None \<and> heap w (ctx_from_handle h2) = None \<and>
           codec2_create_fn L2 mode = Some st \<and>
           heap v2 = (heap w)(p \<mapsto> CODEC2 st,
                              ctx_from_handle h2 \<mapsto>
                                Codec2CtxBlk \<lparr>c2 = p, nsam = codec2_samples_per_frame_fn L2 st,
                                              nbyte = codec2_bytes_per_frame_fn L2 st\<rparr>) \<and>
           new_calls w v2 =
             [Ev_malloc (ctx_from_handle h2), Ev_codec2_create mode p,
              Ev_codec2_samples_per_frame p (codec2_samples_per_frame_fn L2 st),
              Ev_codec2_bytes_per_frame p (codec2_bytes_per_frame_fn L2 st)])"
    by blast
  have f2: "h2 \<noteq> 0 \<longrightarrow> live_handle v2 h2 \<and> heap w (ctx_from_handle h2) = None"
    using n2 by (auto simp: live_handle_def handle_roundtrip)
  have A: "\<exists>h w'. nCreate_opus L sr ch app br cx w = Some (h, w') \<and>
      ((h = 0) = (\<exists>c\<in>set (new_calls w w'). init_step_failed c)) \<and>
      (h \<noteq> 0 \<longrightarrow> live_handle w' h \<and> heap w (ctx_from_handle h) = None) \<and>
      (\<forall>k. live_handle w k \<longrightarrow>
         live_handle w' k \<and> heap w' (ctx_from_handle k) = heap w (ctx_from_handle k) \<and>
         (h \<noteq> 0 \<longrightarrow> k \<noteq> h \<and> ctx_from_handle k \<noteq> ctx_from_handle h))"
    apply (rule exI[of _ h1], rule exI[of _ v1])
    apply (intro conjI)
       apply (rule r1)
      apply (rule z1)
     apply (rule f1)
    apply (rule gen[OF o1 f1])
    done
  have B: "\<exists>h w'. nCreate_codec2 L2 mode w = Some (h, w') \<and>
      ((h = 0) = (\<exists>c\<in>set (new_calls w w'). init_step_failed c)) \<and>
      (h \<noteq> 0 \<longrightarrow> live_handle w' h \<and> heap w (ctx_from_handle h) = None) \<and>
      (\<forall>k. live_handle w k \<longrightarrow>
         live_handle w' k \<and> heap w' (ctx_from_handle k) = heap w (ctx_from_handle k) \<and>
         (h \<noteq> 0 \<longrightarrow> k \<noteq> h \<and> ctx_from_handle k \<noteq> ctx_from_handle h))"
    apply (rule exI[of _ h2], rule exI[of _ v2])
    apply (intro conjI)
       apply (rule r2)
      apply (rule z2)
     apply (rule f2)
    apply (rule gen[OF o2 f2])
    done
  show ?thesis using A B by (rule conjI)
qed

theorem create_handles_nonzero_fresh_distinct_witness:
  "live_handle ex_live 48 \<and> live_handle ex_live 64 \<and>
   (\<exists>w'. nCreate_codec2 ex_codec2 0 ex_live = Some (96, w') \<and>
      heap ex_live (ctx_from_handle 96) = None \<and>
      live_handle w' 96 \<and> live_handle w' 48 \<and> live_handle w' 64)"
proof -
  have l: "live_handle ex_live 48" "live_handle ex_live 64"
    by (simp_all add: live_handle_def ex_live_def ctx_from_handle_def)
  from conjunct2[OF create_handles_nonzero_fresh_distinct
                       [of ex_opus 48000 1 2049 16000 5 ex_live ex_codec2 0]]
  obtain h w' where
    r: "nCreate_codec2 ex_codec2 0 ex_live = Some (h, w')"
    and f: "h \<noteq> 0 \<longrightarrow> live_handle w' h \<and> heap ex_live (ctx_from_handle h) = None"
    and k: "\<forall>k. live_handle ex_live k \<longrightarrow>
         live_handle w' k \<and> heap w' (ctx_from_handle k) = heap ex_live (ctx_from_handle k) \<and>
         (h \<noteq> 0 \<longrightarrow> k \<noteq> h \<and> ctx_from_handle k \<noteq> ctx_from_handle h)"
    by (elim exE conjE) (rule that)
  have "map_option fst (nCreate_codec2 ex_codec2 0 ex_live) = Some 96"
    by (simp add: nCreate_codec2_def ex_codec2_def ex_live_def codec2_create_def
          codec2_samples_per_frame_def codec2_bytes_per_frame_def
          alloc_def malloc_def store_def log_def handle_of_ptr_def)
  with r have h: "h = 96" by simp
  have l48: "live_handle w' 48" and l64: "live_handle w' 64"
    using k l by blast+
  have l96: "live_handle w' 96" "heap ex_live (ctx_from_handle 96) = None"
    using f h by simp_all
  show ?thesis using l r h l48 l64 l96 by simp
qed

text \<open>
  C3.  Fixed-frame \<open>encode\<close> and \<open>decode\<close> on a live handle: whatever the arrays
  hold, a call that returns returns the context's cached \<open>nbyte\<close> (encode) or \<open>nsam\<close>
  (decode), the values \<open>getFrameBytes\<close> and \<open>getSamplesPerFrame\<close> give; there is no
  other return value.  The call does return whenever the engine object is live, both
  arrays exist with the right element types, and the engine's output fits the output
  array (anything else is undefined behaviour in C, not an error return).
\<close>
theorem codec2_transforms_return_cached_sizes:
  assumes live: "load_Codec2Ctx (ctx_from_handle h) w = Some c"
  shows "nGetFrameBytes h w = Some (nbyte c) \<and> nGetSamplesPerFrame h w = Some (nsam c) \<and>
         (\<forall>r w'. nEncode_codec2 L R h pcm out w = Some (r, w') \<longrightarrow> r = nbyte c) \<and>
         (\<forall>r w'. nDecode_codec2 L R h encoded pcmOut w = Some (r, w') \<longrightarrow> r = nsam c) \<and>
         (pcm \<noteq> 0 \<and> out \<noteq> 0 \<and> heap w (c2 c) = Some (CODEC2 st) \<and>
          arrays w pcm = Some (ShortArray xs) \<and> arrays w out = Some (ByteArray old) \<and>
          codec2_encode_fn L st xs = Some (st', bs) \<and> length bs \<le> length old \<longrightarrow>
            (\<exists>w'. nEncode_codec2 L R h pcm out w = Some (nbyte c, w'))) \<and>
         (encoded \<noteq> 0 \<and> pcmOut \<noteq> 0 \<and> heap w (c2 c) = Some (CODEC2 st) \<and>
          arrays w encoded = Some (ByteArray ebs) \<and> arrays w pcmOut = Some (ShortArray pold) \<and>
          codec2_decode_fn L st ebs = Some (st'', pxs) \<and> length pxs \<le> length pold \<longrightarrow>
            (\<exists>w'. nDecode_codec2 L R h encoded pcmOut w = Some (nsam c, w')))"
proof -
  from load_Codec2Ctx_inv[OF live] have nz: "ctx_from_handle h \<noteq> 0"
    and hc: "heap w (ctx_from_handle h) = Some (Codec2CtxBlk c)" by auto
  have g: "nGetFrameBytes h w = Some (nbyte c)" "nGetSamplesPerFrame h w = Some (nsam c)"
    using live by (simp_all add: nGetFrameBytes_def nGetSamplesPerFrame_def)
  have e: "\<forall>r w'. nEncode_codec2 L R h pcm out w = Some (r, w') \<longrightarrow> r = nbyte c"
    using nEncode_codec2_inv[of L R h pcm out w] hc by fastforce
  have d: "\<forall>r w'. nDecode_codec2 L R h encoded pcmOut w = Some (r, w') \<longrightarrow> r = nsam c"
    using nDecode_codec2_inv[of L R h encoded pcmOut w] hc by fastforce
  have ed: "pcm \<noteq> 0 \<and> out \<noteq> 0 \<and> heap w (c2 c) = Some (CODEC2 st) \<and>
          arrays w pcm = Some (ShortArray xs) \<and> arrays w out = Some (ByteArray old) \<and>
          codec2_encode_fn L st xs = Some (st', bs) \<and> length bs \<le> length old \<longrightarrow>
            (\<exists>w'. nEncode_codec2 L R h pcm out w = Some (nbyte c, w'))"
    using nEncode_codec2_defined[OF nz _ _ hc] by blast
  have dd: "encoded \<noteq> 0 \<and> pcmOut \<noteq> 0 \<and> heap w (c2 c) = Some (CODEC2 st) \<and>
          arrays w encoded = Some (ByteArray ebs) \<and> arrays w pcmOut = Some (ShortArray pold) \<and>
          codec2_decode_fn L st ebs = Some (st'', pxs) \<and> length pxs \<le> length pold \<longrightarrow>
            (\<exists>w'. nDecode_codec2 L R h encoded pcmOut w = Some (nsam c, w'))"
    using nDecode_codec2_defined[OF nz _ _ hc] by blast
  show ?thesis using g e d ed dd by (intro conjI)
qed

theorem codec2_transforms_return_cached_sizes_witness:
  "load_Codec2Ctx (ctx_from_handle 64) ex_live = Some \<lparr>c2 = 80, nsam = 2, nbyte = 1\<rparr> \<and>
   nGetFrameBytes 64 ex_live = Some 1 \<and> nGetSamplesPerFrame 64 ex_live = Some 2 \<and>
   (\<exists>w'. nEncode_codec2 ex_codec2 ex_rt 64 1 2 ex_live = Some (1, w')) \<and>
   (\<exists>w'. nDecode_codec2 ex_codec2 ex_rt 64 2 1 ex_live = Some (2, w'))"
proof -
  have live: "load_Codec2Ctx (ctx_from_handle 64) ex_live = Some \<lparr>c2 = 80, nsam = 2, nbyte = 1\<rparr>"
    by (simp add: ex_live_def load_Codec2Ctx_def ctx_from_handle_def)
  have pre: "heap ex_live 80 = Some (CODEC2 0)"
    "arrays ex_live 1 = Some (ShortArray [5, 6])" "arrays ex_live 2 = Some (ByteArray [0, 0, 0, 0])"
    "codec2_encode_fn ex_codec2 0 [5, 6] = Some (Suc 0, [9])"
    "codec2_decode_fn ex_codec2 0 [0, 0, 0, 0] = Some (Suc 0, [3, 4])"
    by (simp_all add: ex_live_def ex_codec2_def)
  from codec2_transforms_return_cached_sizes[OF live,
         where L = ex_codec2 and R = ex_rt and pcm = 1 and out = 2 and encoded = 2 and pcmOut = 1
           and st = 0 and xs = "[5, 6]" and old = "[0, 0, 0, 0]" and st' = "Suc 0" and bs = "[9]"
           and ebs = "[0, 0, 0, 0]" and pold = "[5, 6]" and st'' = "Suc 0" and pxs = "[3, 4]"]
  show ?thesis using live pre by simp
qed

text \<open>
  C5.  \<open>encode\<close> and \<open>decode\<close> of both adapters, whether the runtime hands out
  copies or direct pointers.  Every call that returns has acquired the input array
  (PCM for encode, encoded bytes for decode) and released it once with \<open>JNI_ABORT\<close>,
  leaving it unchanged, and has acquired the output array and released it once with
  mode 0, after which it holds what the engine wrote over its old contents; no other
  array changes.  Each call does return, with exactly this effect, whenever the
  handle's context and engine object are live, both arrays exist with the right
  element types, and the engine's output fits the output array.  An abort release
  never writes to the array, whatever the native buffer holds; a mode-0 release of a
  copy makes the array equal to the buffer.
\<close>
theorem transforms_abort_input_commit_output:
  "(nEncode_opus L R ha pcma fpc outa w = Some (ra, wa) \<longrightarrow>
      io_discipline w wa pcma outa \<and>
      (\<exists>c st st' xs old bs. arrays w pcma = Some (ShortArray xs) \<and>
         arrays w outa = Some (ByteArray old) \<and>
         heap w (ctx_from_handle ha) = Some (OpusCtxBlk c) \<and>
         heap w (enc c) = Some (OpusEncoder st) \<and>
         opus_encode_fn L st xs fpc (of_nat (length old)) = Some (ra, st', bs) \<and>
         arrays wa outa = Some (ByteArray (overlay bs old)))) \<and>
   (nDecode_opus L R hb encb pcmb mfpc w = Some (rb, wb) \<longrightarrow>
      io_discipline w wb encb pcmb \<and>
      (\<exists>c st st' xs old bs. arrays w encb = Some (ByteArray xs) \<and>
         arrays w pcmb = Some (ShortArray old) \<and>
         heap w (ctx_from_handle hb) = Some (OpusCtxBlk c) \<and>
         heap w (dec c) = Some (OpusDecoder st) \<and>
         opus_decode_fn L st xs (of_nat (length xs)) mfpc 0 = Some (rb, st', bs) \<and>
         arrays wb pcmb = Some (ShortArray (overlay bs old)))) \<and>
   (nEncode_codec2 K R hc pcmc outc w = Some (rc, wc) \<longrightarrow>
      io_discipline w wc pcmc outc \<and>
      (\<exists>c st st' xs old bs. arrays w pcmc = Some (ShortArray xs) \<and>
         arrays w outc = Some (ByteArray old) \<and>
         heap w (ctx_from_handle hc) = Some (Codec2CtxBlk c) \<and>
         heap w (c2 c) = Some (CODEC2 st) \<and>
         codec2_encode_fn K st xs = Some (st', bs) \<and>
         arrays wc outc = Some (ByteArray (overlay bs old)))) \<and>
   (nDecode_codec2 K R he encd pcmd w = Some (rd, wd) \<longrightarrow>
      io_discipline w wd encd pcmd \<and>
      (\<exists>c st st' xs old bs. arrays w encd = Some (ByteArray xs) \<and>
         arrays w pcmd = Some (ShortArray old) \<and>
         heap w (ctx_from_handle he) = Some (Codec2CtxBlk c) \<and>
         heap w (c2 c) = Some (CODEC2 st) \<and>
         codec2_decode_fn K st xs = Some (st', bs) \<and>
         arrays wd pcmd = Some (ShortArray (overlay bs old)))) \<and>
   (ctx_from_handle ha \<noteq> 0 \<and> pcma \<noteq> 0 \<and> outa \<noteq> 0 \<and>
    heap w (ctx_from_handle ha) = Some (OpusCtxBlk ca) \<and> heap w (enc ca) = Some (OpusEncoder sa) \<and>
    arrays w pcma = Some (ShortArray xa) \<and> arrays w outa = Some (ByteArray oa) \<and>
    opus_encode_fn L sa xa fpc (of_nat (length oa)) = Some (qa, ta, ba) \<and> length ba \<le> length oa \<longrightarrow>
      (\<exists>v. nEncode_opus L R ha pcma fpc outa w = Some (qa, v) \<and> io_discipline w v pcma outa \<and>
         arrays v pcma = Some (ShortArray xa) \<and>
         arrays v outa = Some (ByteArray (overlay ba oa)))) \<and>
   (ctx_from_handle hb \<noteq> 0 \<and> encb \<noteq> 0 \<and> pcmb \<noteq> 0 \<and>
    heap w (ctx_from_handle hb) = Some (OpusCtxBlk cb) \<and> heap w (dec cb) = Some (OpusDecoder sb) \<and>
    arrays w encb = Some (ByteArray xb) \<and> arrays w pcmb = Some (ShortArray ob) \<and>
    opus_decode_fn L sb xb (of_nat (length xb)) mfpc 0 = Some (qb, tb, bb) \<and> length bb \<le> length ob \<longrightarrow>
      (\<exists>v. nDecode_opus L R hb encb pcmb mfpc w = Some (qb, v) \<and> io_discipline w v encb pcmb \<and>
         arrays v encb = Some (ByteArray xb) \<and>
         arrays v pcmb = Some (ShortArray (overlay bb ob)))) \<and>
   (ctx_from_handle hc \<noteq> 0 \<and> pcmc \<noteq> 0 \<and> outc \<noteq> 0 \<and>
    heap w (ctx_from_handle hc) = Some (Codec2CtxBlk cc) \<and> heap w (c2 cc) = Some (CODEC2 sc) \<and>
    arrays w pcmc = Some (ShortArray xc) \<and> arrays w outc = Some (ByteArray oc) \<and>
    codec2_encode_fn K sc xc = Some (tc, bc) \<and> length bc \<le> length oc \<longrightarrow>
      (\<exists>v. nEncode_codec2 K R hc pcmc outc w = Some (nbyte cc, v) \<and> io_discipline w v pcmc outc \<and>
         arrays v pcmc = Some (ShortArray xc) \<and>
         arrays v outc = Some (ByteArray (overlay bc oc)))) \<and>
   (ctx_from_handle he \<noteq> 0 \<and> encd \<noteq> 0 \<and> pcmd \<noteq> 0 \<and>
    heap w (ctx_from_handle he) = Some (Codec2CtxBlk cd) \<and> heap w (c2 cd) = Some (CODEC2 sd) \<and>
    arrays w encd = Some (ByteArray xd) \<and> arrays w pcmd = Some (ShortArray od) \<and>
    codec2_decode_fn K sd xd = Some (td, bd) \<and> length bd \<le> length od \<longrightarrow>
      (\<exists>v. nDecode_codec2 K R he encd pcmd w = Some (nsam cd, v) \<and> io_discipline w v encd pcmd \<and>
         arrays v encd = Some (ByteArray xd) \<and>
         arrays v pcmd = Some (ShortArray (overlay bd od)))) \<and>
   arrays (ReleaseShortArrayElements ar sv JNI_ABORT w) = arrays w \<and>
   arrays (ReleaseByteArrayElements ar bv JNI_ABORT w) = arrays w \<and>
   (v_copy sv \<longrightarrow>
      arrays (ReleaseShortArrayElements ar sv 0 w) ar = Some (ShortArray (v_buf sv))) \<and>
   (v_copy bv \<longrightarrow>
      arrays (ReleaseByteArrayElements ar bv 0 w) ar = Some (ByteArray (v_buf bv)))"
proof -
  have A1: "nEncode_opus L R ha pcma fpc outa w = Some (ra, wa) \<longrightarrow>
      io_discipline w wa pcma outa \<and>
      (\<exists>c st st' xs old bs. arrays w pcma = Some (ShortArray xs) \<and>
         arrays w outa = Some (ByteArray old) \<and>
         heap w (ctx_from_handle ha) = Some (OpusCtxBlk c) \<and>
         heap w (enc c) = Some (OpusEncoder st) \<and>
         opus_encode_fn L st xs fpc (of_nat (length old)) = Some (ra, st', bs) \<and>
         arrays wa outa = Some (ByteArray (overlay bs old)))"
    using nEncode_opus_io[of L R ha pcma fpc outa w ra wa] by blast
  have A2: "nDecode_opus L R hb encb pcmb mfpc w = Some (rb, wb) \<longrightarrow>
      io_discipline w wb encb pcmb \<and>
      (\<exists>c st st' xs old bs. arrays w encb = Some (ByteArray xs) \<and>
         arrays w pcmb = Some (ShortArray old) \<and>
         heap w (ctx_from_handle hb) = Some (OpusCtxBlk c) \<and>
         heap w (dec c) = Some (OpusDecoder st) \<and>
         opus_decode_fn L st xs (of_nat (length xs)) mfpc 0 = Some (rb, st', bs) \<and>
         arrays wb pcmb = Some (ShortArray (overlay bs old)))"
    using nDecode_opus_io[of L R hb encb pcmb mfpc w rb wb] by blast
  have A3: "nEncode_codec2 K R hc pcmc outc w = Some (rc, wc) \<longrightarrow>
      io_discipline w wc pcmc outc \<and>
      (\<exists>c st st' xs old bs. arrays w pcmc = Some (ShortArray xs) \<and>
         arrays w outc = Some (ByteArray old) \<and>
         heap w (ctx_from_handle hc) = Some (Codec2CtxBlk c) \<and>
         heap w (c2 c) = Some (CODEC2 st) \<and>
         codec2_encode_fn K st xs = Some (st', bs) \<and>
         arrays wc outc = Some (ByteArray (overlay bs old)))"
    using nEncode_codec2_io[of K R hc pcmc outc w rc wc] by blast
  have A4: "nDecode_codec2 K R he encd pcmd w = Some (rd, wd) \<longrightarrow>
      io_discipline w wd encd pcmd \<and>
      (\<exists>c st st' xs old bs. arrays w encd = Some (ByteArray xs) \<and>
         arrays w pcmd = Some (ShortArray old) \<and>
         heap w (ctx_from_handle he) = Some (Codec2CtxBlk c) \<and>
         heap w (c2 c) = Some (CODEC2 st) \<and>
         codec2_decode_fn K st xs = Some (st', bs) \<and>
         arrays wd pcmd = Some (ShortArray (overlay bs old)))"
    using nDecode_codec2_io[of K R he encd pcmd w rd wd] by blast
  have B1: "ctx_from_handle ha \<noteq> 0 \<and> pcma \<noteq> 0 \<and> outa \<noteq> 0 \<and>
    heap w (ctx_from_handle ha) = Some (OpusCtxBlk ca) \<and> heap w (enc ca) = Some (OpusEncoder sa) \<and>
    arrays w pcma = Some (ShortArray xa) \<and> arrays w outa = Some (ByteArray oa) \<and>
    opus_encode_fn L sa xa fpc (of_nat (length oa)) = Some (qa, ta, ba) \<and> length ba \<le> length oa \<longrightarrow>
      (\<exists>v. nEncode_opus L R ha pcma fpc outa w = Some (qa, v) \<and> io_discipline w v pcma outa \<and>
         arrays v pcma = Some (ShortArray xa) \<and>
         arrays v outa = Some (ByteArray (overlay ba oa)))"
    using nEncode_opus_runs[of ha pcma outa w ca sa xa oa L fpc qa ta ba R] by blast
  have B2: "ctx_from_handle hb \<noteq> 0 \<and> encb \<noteq> 0 \<and> pcmb \<noteq> 0 \<and>
    heap w (ctx_from_handle hb) = Some (OpusCtxBlk cb) \<and> heap w (dec cb) = Some (OpusDecoder sb) \<and>
    arrays w encb = Some (ByteArray xb) \<and> arrays w pcmb = Some (ShortArray ob) \<and>
    opus_decode_fn L sb xb (of_nat (length xb)) mfpc 0 = Some (qb, tb, bb) \<and> length bb \<le> length ob \<longrightarrow>
      (\<exists>v. nDecode_opus L R hb encb pcmb mfpc w = Some (qb, v) \<and> io_discipline w v encb pcmb \<and>
         arrays v encb = Some (ByteArray xb) \<and>
         arrays v pcmb = Some (ShortArray (overlay bb ob)))"
    using nDecode_opus_runs[of hb encb pcmb w cb sb xb ob L mfpc qb tb bb R] by blast
  have B3: "ctx_from_handle hc \<noteq> 0 \<and> pcmc \<noteq> 0 \<and> outc \<noteq> 0 \<and>
    heap w (ctx_from_handle hc) = Some (Codec2CtxBlk cc) \<and> heap w (c2 cc) = Some (CODEC2 sc) \<and>
    arrays w pcmc = Some (ShortArray xc) \<and> arrays w outc = Some (ByteArray oc) \<and>
    codec2_encode_fn K sc xc = Some (tc, bc) \<and> length bc \<le> length oc \<longrightarrow>
      (\<exists>v. nEncode_codec2 K R hc pcmc outc w = Some (nbyte cc, v) \<and> io_discipline w v pcmc outc \<and>
         arrays v pcmc = Some (ShortArray xc) \<and>
         arrays v outc = Some (ByteArray (overlay bc oc)))"
    using nEncode_codec2_runs[of hc pcmc outc w cc sc xc oc K tc bc R] by blast
  have B4: "ctx_from_handle he \<noteq> 0 \<and> encd \<noteq> 0 \<and> pcmd \<noteq> 0 \<and>
    heap w (ctx_from_handle he) = Some (Codec2CtxBlk cd) \<and> heap w (c2 cd) = Some (CODEC2 sd) \<and>
    arrays w encd = Some (ByteArray xd) \<and> arrays w pcmd = Some (ShortArray od) \<and>
    codec2_decode_fn K sd xd = Some (td, bd) \<and> length bd \<le> length od \<longrightarrow>
      (\<exists>v. nDecode_codec2 K R he encd pcmd w = Some (nsam cd, v) \<and> io_discipline w v encd pcmd \<and>
         arrays v encd = Some (ByteArray xd) \<and>
         arrays v pcmd = Some (ShortArray (overlay bd od)))"
    using nDecode_codec2_runs[of he encd pcmd w cd sd xd od K td bd R] by blast
  have C1: "arrays (ReleaseShortArrayElements ar sv JNI_ABORT w) = arrays w"
    and C2: "arrays (ReleaseByteArrayElements ar bv JNI_ABORT w) = arrays w"
    and C3: "v_copy sv \<longrightarrow>
      arrays (ReleaseShortArrayElements ar sv 0 w) ar = Some (ShortArray (v_buf sv))"
    and C4: "v_copy bv \<longrightarrow>
      arrays (ReleaseByteArrayElements ar bv 0 w) ar = Some (ByteArray (v_buf bv))"
    by (simp_all add: release_defs)
  show ?thesis by (intro conjI A1 A2 A3 A4 B1 B2 B3 B4 C1 C2 C3 C4)
qed


theorem transforms_abort_input_commit_output_witness:
  "is_copy ex_rt 1 \<and> \<not> is_copy ex_rt 2 \<and> \<not> is_copy ex_rt_swapped 1 \<and> is_copy ex_rt_swapped 2 \<and>
   (\<exists>v. nEncode_opus ex_opus ex_rt 48 1 960 2 ex_live = Some (2, v) \<and>
      io_discipline ex_live v 1 2 \<and>
      arrays v 1 = Some (ShortArray [5, 6]) \<and> arrays v 2 = Some (ByteArray [1, 2, 0, 0])) \<and>
   (\<exists>v. nDecode_opus ex_opus ex_rt 48 2 1 960 ex_live = Some (1, v) \<and>
      io_discipline ex_live v 2 1 \<and>
      arrays v 2 = Some (ByteArray [0, 0, 0, 0]) \<and> arrays v 1 = Some (ShortArray [7, 6])) \<and>
   (\<exists>v. nEncode_codec2 ex_codec2 ex_rt 64 1 2 ex_live = Some (1, v) \<and>
      io_discipline ex_live v 1 2 \<and>
      arrays v 1 = Some (ShortArray [5, 6]) \<and> arrays v 2 = Some (ByteArray [9, 0, 0, 0])) \<and>
   (\<exists>v. nDecode_codec2 ex_codec2 ex_rt 64 2 1 ex_live = Some (2, v) \<and>
      io_discipline ex_live v 2 1 \<and>
      arrays v 2 = Some (ByteArray [0, 0, 0, 0]) \<and> arrays v 1 = Some (ShortArray [3, 4])) \<and>
   (\<exists>v. nEncode_opus ex_opus ex_rt_swapped 48 1 960 2 ex_live = Some (2, v) \<and>
      io_discipline ex_live v 1 2 \<and>
      arrays v 1 = Some (ShortArray [5, 6]) \<and> arrays v 2 = Some (ByteArray [1, 2, 0, 0])) \<and>
   (\<exists>v. nDecode_opus ex_opus ex_rt_swapped 48 2 1 960 ex_live = Some (1, v) \<and>
      io_discipline ex_live v 2 1 \<and>
      arrays v 2 = Some (ByteArray [0, 0, 0, 0]) \<and> arrays v 1 = Some (ShortArray [7, 6])) \<and>
   (\<exists>v. nEncode_codec2 ex_codec2 ex_rt_swapped 64 1 2 ex_live = Some (1, v) \<and>
      io_discipline ex_live v 1 2 \<and>
      arrays v 1 = Some (ShortArray [5, 6]) \<and> arrays v 2 = Some (ByteArray [9, 0, 0, 0])) \<and>
   (\<exists>v. nDecode_codec2 ex_codec2 ex_rt_swapped 64 2 1 ex_live = Some (2, v) \<and>
      io_discipline ex_live v 2 1 \<and>
      arrays v 2 = Some (ByteArray [0, 0, 0, 0]) \<and> arrays v 1 = Some (ShortArray [3, 4]))"
proof -
  have pol: "is_copy ex_rt 1" "\<not> is_copy ex_rt 2" "\<not> is_copy ex_rt_swapped 1"
    "is_copy ex_rt_swapped 2"
    by (simp_all add: ex_rt_def ex_rt_swapped_def)
  have pre:
    "ctx_from_handle 48 \<noteq> 0" "ctx_from_handle 64 \<noteq> 0"
    "heap ex_live (ctx_from_handle 48) = Some (OpusCtxBlk \<lparr>enc = 16, dec = 32\<rparr>)"
    "heap ex_live (ctx_from_handle 64) = Some (Codec2CtxBlk \<lparr>c2 = 80, nsam = 2, nbyte = 1\<rparr>)"
    "heap ex_live 16 = Some (OpusEncoder 2)" "heap ex_live 32 = Some (OpusDecoder 0)"
    "heap ex_live 80 = Some (CODEC2 0)"
    "arrays ex_live 1 = Some (ShortArray [5, 6])"
    "arrays ex_live 2 = Some (ByteArray [0, 0, 0, 0])"
    by (simp_all add: ex_live_def ctx_from_handle_def)
  have eng:
    "opus_encode_fn ex_opus 2 [5, 6] 960 4 = Some (2, 3, [1, 2])"
    "opus_decode_fn ex_opus 0 [0, 0, 0, 0] 4 960 0 = Some (1, 1, [7])"
    "codec2_encode_fn ex_codec2 0 [5, 6] = Some (1, [9])"
    "codec2_decode_fn ex_codec2 0 [0, 0, 0, 0] = Some (1, [3, 4])"
    by (simp_all add: ex_opus_def ex_codec2_def)
  note T = transforms_abort_input_commit_output[where L = ex_opus and K = ex_codec2 and R = ex_rt and w = ex_live
             and fpc = 960 and mfpc = 960
             and ha = 48 and pcma = 1 and outa = 2 and ca = "\<lparr>enc = 16, dec = 32\<rparr>"
             and sa = 2 and xa = "[5, 6]" and oa = "[0, 0, 0, 0]" and qa = 2 and ta = 3
             and ba = "[1, 2]"
             and hb = 48 and encb = 2 and pcmb = 1 and cb = "\<lparr>enc = 16, dec = 32\<rparr>"
             and sb = 0 and xb = "[0, 0, 0, 0]" and ob = "[5, 6]" and qb = 1 and tb = 1
             and bb = "[7]"
             and hc = 64 and pcmc = 1 and outc = 2
             and cc = "\<lparr>c2 = 80, nsam = 2, nbyte = 1\<rparr>"
             and sc = 0 and xc = "[5, 6]" and oc = "[0, 0, 0, 0]" and tc = 1 and bc = "[9]"
             and he = 64 and encd = 2 and pcmd = 1
             and cd = "\<lparr>c2 = 80, nsam = 2, nbyte = 1\<rparr>"
             and sd = 0 and xd = "[0, 0, 0, 0]" and od = "[5, 6]" and td = 1 and bd = "[3, 4]"]
  note S = transforms_abort_input_commit_output[where L = ex_opus and K = ex_codec2 and R = ex_rt_swapped and w = ex_live
             and fpc = 960 and mfpc = 960
             and ha = 48 and pcma = 1 and outa = 2 and ca = "\<lparr>enc = 16, dec = 32\<rparr>"
             and sa = 2 and xa = "[5, 6]" and oa = "[0, 0, 0, 0]" and qa = 2 and ta = 3
             and ba = "[1, 2]"
             and hb = 48 and encb = 2 and pcmb = 1 and cb = "\<lparr>enc = 16, dec = 32\<rparr>"
             and sb = 0 and xb = "[0, 0, 0, 0]" and ob = "[5, 6]" and qb = 1 and tb = 1
             and bb = "[7]"
             and hc = 64 and pcmc = 1 and outc = 2
             and cc = "\<lparr>c2 = 80, nsam = 2, nbyte = 1\<rparr>"
             and sc = 0 and xc = "[5, 6]" and oc = "[0, 0, 0, 0]" and tc = 1 and bc = "[9]"
             and he = 64 and encd = 2 and pcmd = 1
             and cd = "\<lparr>c2 = 80, nsam = 2, nbyte = 1\<rparr>"
             and sd = 0 and xd = "[0, 0, 0, 0]" and od = "[5, 6]" and td = 1 and bd = "[3, 4]"]
  have t1: "\<exists>v. nEncode_opus ex_opus ex_rt 48 1 960 2 ex_live = Some (2, v) \<and>
      io_discipline ex_live v 1 2 \<and>
      arrays v 1 = Some (ShortArray [5, 6]) \<and> arrays v 2 = Some (ByteArray [1, 2, 0, 0])"
    using T[THEN conjunct2, THEN conjunct2, THEN conjunct2, THEN conjunct2, THEN conjunct1] pre eng by (simp add: overlay_def)
  have t2: "\<exists>v. nDecode_opus ex_opus ex_rt 48 2 1 960 ex_live = Some (1, v) \<and>
      io_discipline ex_live v 2 1 \<and>
      arrays v 2 = Some (ByteArray [0, 0, 0, 0]) \<and> arrays v 1 = Some (ShortArray [7, 6])"
    using T[THEN conjunct2, THEN conjunct2, THEN conjunct2, THEN conjunct2, THEN conjunct2, THEN conjunct1] pre eng by (simp add: overlay_def)
  have t3: "\<exists>v. nEncode_codec2 ex_codec2 ex_rt 64 1 2 ex_live = Some (1, v) \<and>
      io_discipline ex_live v 1 2 \<and>
      arrays v 1 = Some (ShortArray [5, 6]) \<and> arrays v 2 = Some (ByteArray [9, 0, 0, 0])"
    using T[THEN conjunct2, THEN conjunct2, THEN conjunct2, THEN conjunct2, THEN conjunct2, THEN conjunct2, THEN conjunct1] pre eng by (simp add: overlay_def)
  have t4: "\<exists>v. nDecode_codec2 ex_codec2 ex_rt 64 2 1 ex_live = Some (2, v) \<and>
      io_discipline ex_live v 2 1 \<and>
      arrays v 2 = Some (ByteArray [0, 0, 0, 0]) \<and> arrays v 1 = Some (ShortArray [3, 4])"
    using T[THEN conjunct2, THEN conjunct2, THEN conjunct2, THEN conjunct2, THEN conjunct2, THEN conjunct2, THEN conjunct2, THEN conjunct1] pre eng by (simp add: overlay_def)
  have s1: "\<exists>v. nEncode_opus ex_opus ex_rt_swapped 48 1 960 2 ex_live = Some (2, v) \<and>
      io_discipline ex_live v 1 2 \<and>
      arrays v 1 = Some (ShortArray [5, 6]) \<and> arrays v 2 = Some (ByteArray [1, 2, 0, 0])"
    using S[THEN conjunct2, THEN conjunct2, THEN conjunct2, THEN conjunct2, THEN conjunct1] pre eng by (simp add: overlay_def)
  have s2: "\<exists>v. nDecode_opus ex_opus ex_rt_swapped 48 2 1 960 ex_live = Some (1, v) \<and>
      io_discipline ex_live v 2 1 \<and>
      arrays v 2 = Some (ByteArray [0, 0, 0, 0]) \<and> arrays v 1 = Some (ShortArray [7, 6])"
    using S[THEN conjunct2, THEN conjunct2, THEN conjunct2, THEN conjunct2, THEN conjunct2, THEN conjunct1] pre eng by (simp add: overlay_def)
  have s3: "\<exists>v. nEncode_codec2 ex_codec2 ex_rt_swapped 64 1 2 ex_live = Some (1, v) \<and>
      io_discipline ex_live v 1 2 \<and>
      arrays v 1 = Some (ShortArray [5, 6]) \<and> arrays v 2 = Some (ByteArray [9, 0, 0, 0])"
    using S[THEN conjunct2, THEN conjunct2, THEN conjunct2, THEN conjunct2, THEN conjunct2, THEN conjunct2, THEN conjunct1] pre eng by (simp add: overlay_def)
  have s4: "\<exists>v. nDecode_codec2 ex_codec2 ex_rt_swapped 64 2 1 ex_live = Some (2, v) \<and>
      io_discipline ex_live v 2 1 \<and>
      arrays v 2 = Some (ByteArray [0, 0, 0, 0]) \<and> arrays v 1 = Some (ShortArray [3, 4])"
    using S[THEN conjunct2, THEN conjunct2, THEN conjunct2, THEN conjunct2, THEN conjunct2, THEN conjunct2, THEN conjunct2, THEN conjunct1] pre eng by (simp add: overlay_def)
  show ?thesis by (intro conjI pol t1 t2 t3 t4 s1 s2 s3 s4)
qed




text \<open>
  C2 (amended).  Variable-frame \<open>decode\<close> has no parameter for a declared size: the
  byte length passed to the engine is always the full length of the \<open>encoded\<close> array,
  and the engine sees the whole array.  \<open>maxFramesPerChannel\<close> is passed unchanged as
  the engine's \<open>frame_size\<close>, so when the engine keeps its bound the call writes at
  most \<open>maxFramesPerChannel\<close> frames per channel into \<open>pcmOut\<close> and leaves every
  sample beyond them as it was.  The call returns whenever the context and decoder
  are live, both arrays exist and the engine's output fits \<open>pcmOut\<close>.
\<close>
theorem nDecode_opus_passes_array_length:
  "(nDecode_opus L R h encoded pcmOut mfpc w = Some (r, w') \<longrightarrow>
      (\<exists>bs old xs c st st'.
         arrays w encoded = Some (ByteArray bs) \<and> arrays w pcmOut = Some (ShortArray old) \<and>
         opus_decode_calls (new_calls w w') = [(of_nat (length bs), mfpc, 0, r)] \<and>
         heap w (ctx_from_handle h) = Some (OpusCtxBlk c) \<and>
         heap w (dec c) = Some (OpusDecoder st) \<and>
         opus_decode_fn L st bs (of_nat (length bs)) mfpc 0 = Some (r, st', xs) \<and>
         length xs \<le> length old \<and>
         arrays w' pcmOut = Some (ShortArray (overlay xs old)) \<and>
         (opus_decode_bounded L chans \<longrightarrow>
            length xs \<le> nat (sint mfpc) * chans st \<and>
            drop (nat (sint mfpc) * chans st) (overlay xs old) =
              drop (nat (sint mfpc) * chans st) old))) \<and>
   (ctx_from_handle h \<noteq> 0 \<and> encoded \<noteq> 0 \<and> pcmOut \<noteq> 0 \<and>
    heap w (ctx_from_handle h) = Some (OpusCtxBlk cb) \<and> heap w (dec cb) = Some (OpusDecoder sb) \<and>
    arrays w encoded = Some (ByteArray xb) \<and> arrays w pcmOut = Some (ShortArray ob) \<and>
    opus_decode_fn L sb xb (of_nat (length xb)) mfpc 0 = Some (qb, tb, bb) \<and>
    length bb \<le> length ob \<longrightarrow>
      (\<exists>v. nDecode_opus L R h encoded pcmOut mfpc w = Some (qb, v)))"
proof (intro conjI impI)
  assume run: "nDecode_opus L R h encoded pcmOut mfpc w = Some (r, w')"
  from nDecode_opus_inv[OF run] obtain c st st' bs old xs where
    f: "arrays w encoded = Some (ByteArray bs)" "arrays w pcmOut = Some (ShortArray old)"
       "heap w (ctx_from_handle h) = Some (OpusCtxBlk c)" "heap w (dec c) = Some (OpusDecoder st)"
       "opus_decode_fn L st bs (of_nat (length bs)) mfpc 0 = Some (r, st', xs)"
       "length xs \<le> length old"
    and w': "w' = w\<lparr>heap := (heap w)(dec c \<mapsto> OpusDecoder st'),
                  arrays := (arrays w)(pcmOut \<mapsto> ShortArray (overlay xs old)),
                  calls := calls w @
                    [Ev_GetArrayLength encoded (of_nat (length bs)),
                     Ev_GetByteArrayElements encoded,
                     Ev_GetShortArrayElements pcmOut,
                     Ev_opus_decode (dec c) (of_nat (length bs)) mfpc 0 r,
                     Ev_ReleaseByteArrayElements encoded JNI_ABORT,
                     Ev_ReleaseShortArrayElements pcmOut 0]\<rparr>"
    by blast
  have lg: "opus_decode_calls (new_calls w w') = [(of_nat (length bs), mfpc, 0, r)]"
    unfolding w' by (simp add: new_calls_def opus_decode_calls_def)
  have o: "arrays w' pcmOut = Some (ShortArray (overlay xs old))" unfolding w' by simp
  have bd: "opus_decode_bounded L chans \<longrightarrow>
            length xs \<le> nat (sint mfpc) * chans st \<and>
            drop (nat (sint mfpc) * chans st) (overlay xs old) =
              drop (nat (sint mfpc) * chans st) old"
  proof
    assume "opus_decode_bounded L chans"
    with f(5) have le: "length xs \<le> nat (sint mfpc) * chans st"
      unfolding opus_decode_bounded_def by blast
    then have "drop (nat (sint mfpc) * chans st) (overlay xs old) =
              drop (nat (sint mfpc) * chans st) old"
      by (simp add: overlay_def)
    with le show "length xs \<le> nat (sint mfpc) * chans st \<and>
            drop (nat (sint mfpc) * chans st) (overlay xs old) =
              drop (nat (sint mfpc) * chans st) old" by blast
  qed
  show "\<exists>bs old xs c st st'.
         arrays w encoded = Some (ByteArray bs) \<and> arrays w pcmOut = Some (ShortArray old) \<and>
         opus_decode_calls (new_calls w w') = [(of_nat (length bs), mfpc, 0, r)] \<and>
         heap w (ctx_from_handle h) = Some (OpusCtxBlk c) \<and>
         heap w (dec c) = Some (OpusDecoder st) \<and>
         opus_decode_fn L st bs (of_nat (length bs)) mfpc 0 = Some (r, st', xs) \<and>
         length xs \<le> length old \<and>
         arrays w' pcmOut = Some (ShortArray (overlay xs old)) \<and>
         (opus_decode_bounded L chans \<longrightarrow>
            length xs \<le> nat (sint mfpc) * chans st \<and>
            drop (nat (sint mfpc) * chans st) (overlay xs old) =
              drop (nat (sint mfpc) * chans st) old)"
    apply (rule exI[of _ bs], rule exI[of _ old], rule exI[of _ xs], rule exI[of _ c],
           rule exI[of _ st], rule exI[of _ st'])
    using f lg o bd by (intro conjI)
next
  assume a: "ctx_from_handle h \<noteq> 0 \<and> encoded \<noteq> 0 \<and> pcmOut \<noteq> 0 \<and>
    heap w (ctx_from_handle h) = Some (OpusCtxBlk cb) \<and> heap w (dec cb) = Some (OpusDecoder sb) \<and>
    arrays w encoded = Some (ByteArray xb) \<and> arrays w pcmOut = Some (ShortArray ob) \<and>
    opus_decode_fn L sb xb (of_nat (length xb)) mfpc 0 = Some (qb, tb, bb) \<and>
    length bb \<le> length ob"
  then show "\<exists>v. nDecode_opus L R h encoded pcmOut mfpc w = Some (qb, v)"
    using nDecode_opus_defined[of h encoded pcmOut w cb sb xb ob L mfpc qb tb bb R] by blast
qed

theorem nDecode_opus_passes_array_length_witness:
  "opus_decode_bounded ex_opus (\<lambda>st. 1) \<and>
   (\<exists>w'. nDecode_opus ex_opus ex_rt 48 2 1 1 ex_live = Some (1, w') \<and>
      opus_decode_calls (new_calls ex_live w') = [(4, 1, 0, 1)] \<and>
      arrays w' 1 = Some (ShortArray [7, 6]) \<and>
      drop 1 [7, 6 :: jshort] = drop 1 [5, 6])"
proof -
  have b: "opus_decode_bounded ex_opus (\<lambda>st. 1)"
    by (auto simp: opus_decode_bounded_def ex_opus_def split: if_splits)
  have pre: "ctx_from_handle 48 \<noteq> 0"
    "heap ex_live (ctx_from_handle 48) = Some (OpusCtxBlk \<lparr>enc = 16, dec = 32\<rparr>)"
    "heap ex_live 32 = Some (OpusDecoder 0)"
    "arrays ex_live 2 = Some (ByteArray [0, 0, 0, 0])"
    "arrays ex_live 1 = Some (ShortArray [5, 6])"
    by (simp_all add: ex_live_def ctx_from_handle_def)
  have eng: "opus_decode_fn ex_opus 0 [0, 0, 0, 0] 4 1 0 = Some (1, 1, [7])"
    by (simp add: ex_opus_def)
  note T = nDecode_opus_passes_array_length
             [where L = ex_opus and R = ex_rt and h = 48 and encoded = 2 and pcmOut = 1
                and mfpc = 1 and w = ex_live and chans = "\<lambda>st. 1"
                and cb = "\<lparr>enc = 16, dec = 32\<rparr>" and sb = 0 and xb = "[0, 0, 0, 0]"
                and ob = "[5, 6]" and qb = 1 and tb = 1 and bb = "[7]"]
  from T[THEN conjunct2] pre eng
  obtain w' where run: "nDecode_opus ex_opus ex_rt 48 2 1 1 ex_live = Some (1, w')"
    by auto
  from T[where r = 1 and w' = w', THEN conjunct1, rule_format, OF run] b
  obtain bs old xs st st' where
    f: "arrays ex_live 2 = Some (ByteArray bs)" "arrays ex_live 1 = Some (ShortArray old)"
       "opus_decode_calls (new_calls ex_live w') = [(of_nat (length bs), 1, 0, 1)]"
       "opus_decode_fn ex_opus st bs (of_nat (length bs)) 1 0 = Some (1, st', xs)"
       "arrays w' 1 = Some (ShortArray (overlay xs old))"
       "length xs \<le> nat (sint (1 :: jint)) * 1"
    by auto
  have bs: "bs = [0, 0, 0, 0]" and old: "old = [5, 6]" using f(1,2) pre by simp_all
  have xs: "xs = [7]" using f(4) unfolding bs by (simp add: ex_opus_def)
  show ?thesis using b run f(3,5) unfolding bs old xs by (simp add: overlay_def)
qed

text \<open>
  C2 as stated fails: with a four-byte array the engine is told 4 bytes, the whole
  capacity; nothing the caller passes can make it less.
\<close>
theorem nDecode_opus_declared_size_counterexample:
  "nDecode_opus ex_opus ex_rt 48 2 1 960 ex_live \<noteq> None \<and>
   arrays ex_live 2 = Some (ByteArray [0, 0, 0, 0]) \<and>
   opus_decode_calls
     (new_calls ex_live (snd (the (nDecode_opus ex_opus ex_rt 48 2 1 960 ex_live)))) =
     [(4, 960, 0, 1)]"
  by (simp add: nDecode_opus_def ex_opus_def ex_rt_def ex_live_def ctx_from_handle_def
        GetArrayLength_def GetByteArrayElements_def GetShortArrayElements_def load_OpusCtx_def
        opus_decode_def write_shorts_def overlay_def store_def release_defs
        new_calls_def opus_decode_calls_def)

text \<open>
  C9 (amended).  \<open>JNI_OnLoad\<close> of both files returns \<open>JNI_ERR\<close> exactly when
  \<open>GetEnv\<close> does not answer \<open>JNI_OK\<close>, or the class is not found, or
  \<open>RegisterNatives\<close> answers non-zero, and \<open>JNI_VERSION_1_6\<close> exactly otherwise.
\<close>
theorem JNI_OnLoad_result:
  "(fst (JNI_OnLoad_opus R) = JNI_ERR) =
     (GetEnv_fn R JNI_VERSION_1_6 \<noteq> JNI_OK \<or>
      FindClass_fn R ''tech/torlando/lxst/codec/NativeOpus'' = 0 \<or>
      RegisterNatives_fn R (FindClass_fn R ''tech/torlando/lxst/codec/NativeOpus'')
        sMethods_opus 4 \<noteq> 0) \<and>
   (fst (JNI_OnLoad_opus R) = JNI_VERSION_1_6) =
     (GetEnv_fn R JNI_VERSION_1_6 = JNI_OK \<and>
      FindClass_fn R ''tech/torlando/lxst/codec/NativeOpus'' \<noteq> 0 \<and>
      RegisterNatives_fn R (FindClass_fn R ''tech/torlando/lxst/codec/NativeOpus'')
        sMethods_opus 4 = 0) \<and>
   (fst (JNI_OnLoad_codec2 R) = JNI_ERR) =
     (GetEnv_fn R JNI_VERSION_1_6 \<noteq> JNI_OK \<or>
      FindClass_fn R ''tech/torlando/lxst/codec/NativeCodec2'' = 0 \<or>
      RegisterNatives_fn R (FindClass_fn R ''tech/torlando/lxst/codec/NativeCodec2'')
        sMethods_codec2 6 \<noteq> 0) \<and>
   (fst (JNI_OnLoad_codec2 R) = JNI_VERSION_1_6) =
     (GetEnv_fn R JNI_VERSION_1_6 = JNI_OK \<and>
      FindClass_fn R ''tech/torlando/lxst/codec/NativeCodec2'' \<noteq> 0 \<and>
      RegisterNatives_fn R (FindClass_fn R ''tech/torlando/lxst/codec/NativeCodec2'')
        sMethods_codec2 6 = 0)"
proof -
  have ne: "JNI_VERSION_1_6 \<noteq> JNI_ERR" by (simp add: JNI_VERSION_1_6_def JNI_ERR_def)
  have n4: "(of_nat (length sMethods_opus) :: jint) = 4" by (simp add: sMethods_opus_def)
  have n6: "(of_nat (length sMethods_codec2) :: jint) = 6" by (simp add: sMethods_codec2_def)
  show ?thesis
    using ne by (auto simp: JNI_OnLoad_opus_def JNI_OnLoad_codec2_def n4 n6 Let_def)
qed

theorem JNI_OnLoad_result_witness:
  "GetEnv_fn ex_rt JNI_VERSION_1_6 = JNI_OK \<and>
   fst (JNI_OnLoad_opus ex_rt) = JNI_VERSION_1_6 \<and>
   fst (JNI_OnLoad_codec2 ex_rt) = JNI_VERSION_1_6 \<and>
   fst (JNI_OnLoad_opus ex_rt_noenv) = JNI_ERR \<and>
   fst (JNI_OnLoad_codec2 ex_rt_noenv) = JNI_ERR"
  using JNI_OnLoad_result[of ex_rt] JNI_OnLoad_result[of ex_rt_noenv]
  by (simp add: ex_rt_def ex_rt_noenv_def JNI_OK_def)

text \<open>
  C9 as stated fails: when \<open>GetEnv\<close> fails the load entry point returns \<open>JNI_ERR\<close>
  although the class can be found and registration would succeed.
\<close>
theorem JNI_OnLoad_GetEnv_counterexample:
  "\<not> ((fst (JNI_OnLoad_opus ex_rt_noenv) = JNI_ERR) =
        (FindClass_fn ex_rt_noenv ''tech/torlando/lxst/codec/NativeOpus'' = 0 \<or>
         RegisterNatives_fn ex_rt_noenv
           (FindClass_fn ex_rt_noenv ''tech/torlando/lxst/codec/NativeOpus'') sMethods_opus 4 \<noteq> 0)) \<and>
   JNI_OnLoad_opus ex_rt_noenv = (JNI_ERR, [J_GetEnv JNI_VERSION_1_6 (- 2)]) \<and>
   FindClass_fn ex_rt_noenv ''tech/torlando/lxst/codec/NativeOpus'' = 5 \<and>
   RegisterNatives_fn ex_rt_noenv 5 sMethods_opus 4 = 0 \<and>
   JNI_OnLoad_codec2 ex_rt_noenv = (JNI_ERR, [J_GetEnv JNI_VERSION_1_6 (- 2)]) \<and>
   FindClass_fn ex_rt_noenv ''tech/torlando/lxst/codec/NativeCodec2'' = 5 \<and>
   RegisterNatives_fn ex_rt_noenv 5 sMethods_codec2 6 = 0"
  by (simp add: JNI_OnLoad_opus_def JNI_OnLoad_codec2_def ex_rt_noenv_def ex_rt_def
        JNI_OK_def JNI_VERSION_1_6_def Let_def)

text \<open>
  C4.  After a successful fixed-frame \<open>create(mode)\<close> the context holds the two sizes
  the engine reported for the object it built, each asked for once, during
  \<open>create\<close>.  Whatever sequence of \<open>encode\<close>, \<open>decode\<close> and size queries follows, on
  this or any other handle, the context is unchanged, the engine is not asked again,
  and \<open>getSamplesPerFrame\<close> and \<open>getFrameBytes\<close> keep returning the creation-time
  values.  They are positive when the engine's reported geometry is, which is the
  engine's contract for the modes it accepts.
\<close>
theorem codec2_cached_sizes_fixed_at_create:
  assumes cr: "nCreate_codec2 L mode w = Some (h, w1)" and nz: "h \<noteq> 0"
      and run: "c2_run L R ops w1 = Some w2"
      and pos: "\<forall>st. codec2_create_fn L mode = Some st \<longrightarrow>
                  0 < sint (codec2_samples_per_frame_fn L st) \<and>
                  0 < sint (codec2_bytes_per_frame_fn L st)"
  shows "\<exists>p st n b. codec2_create_fn L mode = Some st \<and>
           n = codec2_samples_per_frame_fn L st \<and> b = codec2_bytes_per_frame_fn L st \<and>
           0 < sint n \<and> 0 < sint b \<and>
           load_Codec2Ctx (ctx_from_handle h) w1 = Some \<lparr>c2 = p, nsam = n, nbyte = b\<rparr> \<and>
           load_Codec2Ctx (ctx_from_handle h) w2 = Some \<lparr>c2 = p, nsam = n, nbyte = b\<rparr> \<and>
           nGetSamplesPerFrame h w1 = Some n \<and> nGetFrameBytes h w1 = Some b \<and>
           nGetSamplesPerFrame h w2 = Some n \<and> nGetFrameBytes h w2 = Some b \<and>
           geometry_queries (new_calls w w2) =
             [Ev_codec2_samples_per_frame p n, Ev_codec2_bytes_per_frame p b]"
proof -
  from nCreate_codec2_spec[of L mode w] cr nz obtain p st where
    cf: "codec2_create_fn L mode = Some st"
    and h1: "heap w1 = (heap w)(p \<mapsto> CODEC2 st,
                              ctx_from_handle h \<mapsto>
                                Codec2CtxBlk \<lparr>c2 = p, nsam = codec2_samples_per_frame_fn L st,
                                              nbyte = codec2_bytes_per_frame_fn L st\<rparr>)"
    and nc: "new_calls w w1 =
             [Ev_malloc (ctx_from_handle h), Ev_codec2_create mode p,
              Ev_codec2_samples_per_frame p (codec2_samples_per_frame_fn L st),
              Ev_codec2_bytes_per_frame p (codec2_bytes_per_frame_fn L st)]"
    by auto
  let ?n = "codec2_samples_per_frame_fn L st" and ?b = "codec2_bytes_per_frame_fn L st"
  let ?c = "\<lparr>c2 = p, nsam = ?n, nbyte = ?b\<rparr>"
  have cz: "ctx_from_handle h \<noteq> 0" using nz by (simp add: handle_roundtrip)
  have b1: "heap w1 (ctx_from_handle h) = Some (Codec2CtxBlk ?c)" using h1 by simp
  from c2_run_preserves[OF run] obtain cs where
    b2: "heap w2 (ctx_from_handle h) = Some (Codec2CtxBlk ?c)"
    and c2: "calls w2 = calls w1 @ cs" "geometry_queries cs = []"
    using b1 by blast
  have l1: "load_Codec2Ctx (ctx_from_handle h) w1 = Some ?c"
    and l2: "load_Codec2Ctx (ctx_from_handle h) w2 = Some ?c"
    using cz b1 b2 by (simp_all add: load_Codec2Ctx_def)
  have g: "nGetSamplesPerFrame h w1 = Some ?n" "nGetFrameBytes h w1 = Some ?b"
          "nGetSamplesPerFrame h w2 = Some ?n" "nGetFrameBytes h w2 = Some ?b"
    using l1 l2 by (simp_all add: nGetSamplesPerFrame_def nGetFrameBytes_def)
  have "length (new_calls w w1) = 4" using nc by simp
  then have len: "length (calls w) \<le> length (calls w1)"
    by (simp add: new_calls_def)
  have q: "geometry_queries (new_calls w w2) =
             [Ev_codec2_samples_per_frame p ?n, Ev_codec2_bytes_per_frame p ?b]"
  proof -
    have "new_calls w w2 = new_calls w w1 @ cs"
      using c2(1) len by (simp add: new_calls_def)
    then show ?thesis using nc c2(2) by (simp add: geometry_queries_def)
  qed
  show ?thesis
    apply (rule exI[of _ p], rule exI[of _ st], rule exI[of _ ?n], rule exI[of _ ?b])
    using cf pos l1 l2 g q by simp
qed


theorem codec2_cached_sizes_fixed_at_create_witness:
  "\<exists>w1 w2. nCreate_codec2 ex_codec2 0 ex_world = Some (16, w1) \<and>
      c2_run ex_codec2 ex_rt
        [Call_encode 16 1 2, Call_getSamplesPerFrame 16, Call_decode 16 2 1,
         Call_getFrameBytes 16] w1 = Some w2 \<and>
      nGetSamplesPerFrame 16 w2 = Some 2 \<and> nGetFrameBytes 16 w2 = Some 1 \<and>
      geometry_queries (new_calls ex_world w2) =
        [Ev_codec2_samples_per_frame 32 2, Ev_codec2_bytes_per_frame 32 1]"
proof -
  let ?w1 = "snd (the (nCreate_codec2 ex_codec2 0 ex_world))"
  let ?ops = "[Call_encode 16 1 2, Call_getSamplesPerFrame 16, Call_decode 16 2 1,
               Call_getFrameBytes 16]"
  let ?w2 = "the (c2_run ex_codec2 ex_rt ?ops ?w1)"
  have cr: "nCreate_codec2 ex_codec2 0 ex_world = Some (16, ?w1)"
    by (simp add: eval_defs ex_codec2_def ex_world_def)
  have run: "c2_run ex_codec2 ex_rt ?ops ?w1 = Some ?w2"
    by (simp add: eval_defs ex_codec2_def ex_world_def ex_rt_def)
  have pos: "\<forall>st. codec2_create_fn ex_codec2 0 = Some st \<longrightarrow>
                  0 < sint (codec2_samples_per_frame_fn ex_codec2 st) \<and>
                  0 < sint (codec2_bytes_per_frame_fn ex_codec2 st)"
    by (simp add: ex_codec2_def)
  have nz: "(16 :: jlong) \<noteq> 0" by simp
  from codec2_cached_sizes_fixed_at_create[OF cr nz run pos]
  obtain p st n b where
    f: "n = codec2_samples_per_frame_fn ex_codec2 st" "b = codec2_bytes_per_frame_fn ex_codec2 st"
       "load_Codec2Ctx (ctx_from_handle 16) ?w1 = Some \<lparr>c2 = p, nsam = n, nbyte = b\<rparr>"
       "nGetSamplesPerFrame 16 ?w2 = Some n" "nGetFrameBytes 16 ?w2 = Some b"
       "geometry_queries (new_calls ex_world ?w2) =
             [Ev_codec2_samples_per_frame p n, Ev_codec2_bytes_per_frame p b]"
    by blast
  have n: "n = 2" and b: "b = 1" using f(1,2) by (simp_all add: ex_codec2_def)
  have "load_Codec2Ctx (ctx_from_handle 16) ?w1 = Some \<lparr>c2 = 32, nsam = 2, nbyte = 1\<rparr>"
    by (simp add: eval_defs ex_codec2_def ex_world_def)
  with f(3) have p: "p = 32" by simp
  show ?thesis
    apply (rule exI[of _ ?w1], rule exI[of _ ?w2])
    using cr run f(4,5,6) unfolding n b p by simp
qed

end
